theory Spec2Isabelle
  imports Main "HOL-Library.Word"
begin

section \<open>Errors and strings\<close>

text \<open>
  A Go \<open>error\<close> value. A failure of the daemon itself carries the number of the call
  that failed, so that a returned error can be traced to the call it came from; an error
  made with \<open>fmt.Errorf\<close> carries its message; a panic carries the error it was raised
  with. Every caller of a function that can panic hands the error it gets to its own
  caller, so a panic kept as an error value reaches the top as the panic would.
\<close>

datatype error =
    DaemonFault nat
  | NameConflict string
  | NoSuchContainer string
  | NotRunning string
  | StillRunning string
  | NoSuchExec string
  | NoSuchNetwork string
  | InvalidFilter string
  | StreamError string
  | OSError string
  | TransportError string
  | JSONError string
  | PortError string
  | PullError string
  | Errorf string
  | EOF
  | Panic error

text \<open>\<open>strings.Trim(s, cutset)\<close>: every leading and trailing character of the cutset is removed.\<close>

definition Trim :: "string \<Rightarrow> string \<Rightarrow> string" where
  "Trim s cutset =
     rev (dropWhile (\<lambda>c. c \<in> set cutset) (rev (dropWhile (\<lambda>c. c \<in> set cutset) s)))"

text \<open>\<open>strings.Contains(s, substr)\<close>.\<close>

fun Contains :: "string \<Rightarrow> string \<Rightarrow> bool" where
  "Contains [] substr = (substr = [])"
| "Contains (c # s) substr = (take (length substr) (c # s) = substr \<or> Contains s substr)"

text \<open>What the process prints: \<open>fmt.Println\<close> of a string, \<open>fmt.Printf\<close> of a format and its arguments.\<close>

datatype fmt_arg = String string | Error error

datatype printed = Println string | Printf string "fmt_arg list"

section \<open>The adapter's data (package docker)\<close>

record ExposedPorts =
  Port :: string
  Protocol :: string

text \<open>\<open>mount.Mount\<close>, \<open>nat.PortBinding\<close> and \<open>types.MountPoint\<close> of the Docker client library.\<close>

record Mount =
  Mount_Type :: string
  Mount_Source :: string
  Mount_Target :: string

record PortBinding =
  HostPort :: string

record MountPoint =
  MountPoint_Type :: string
  MountPoint_Source :: string
  MountPoint_Destination :: string

record ContainerConfig =
  Name :: string
  Image :: string
  Ports :: "ExposedPorts list"
  HostName :: string
  NetworkName :: string
  Volumes :: "Mount list"
  Command :: "string list"
  Env :: "string list"
  Labels :: "string \<rightharpoonup> string"

record ExecResult =
  StdOut :: string
  StdErr :: string
  ExitCode :: int

text \<open>The zero value \<open>ExecResult{}\<close>.\<close>

definition ExecResult_zero :: ExecResult where
  "ExecResult_zero = \<lparr>StdOut = [], StdErr = [], ExitCode = 0\<rparr>"

text \<open>
  \<open>portConfig\<close>. A Go map from port names is kept as a list of entries, one per key;
  \<open>map_set m k v\<close> is \<open>m[k] = v\<close>.
\<close>

record portConfig =
  PortBindings :: "(string \<times> PortBinding list) list"
  PortSet :: "(string \<times> unit) list"

fun map_set :: "('k \<times> 'v) list \<Rightarrow> 'k \<Rightarrow> 'v \<Rightarrow> ('k \<times> 'v) list" where
  "map_set [] k v = [(k, v)]"
| "map_set ((k', v') # m) k v = (if k' = k then (k, v) # m else (k', v') # map_set m k v)"

section \<open>The container engine\<close>

text \<open>
  The Docker daemon and its client library are outside the repository. They are modelled
  as a state machine, the part of the \<open>world\<close> record below that the client calls read
  and change.
  \<^item> A container has an identifier, the names the daemon reports for it (each with the
    daemon's leading \<open>/\<close>), a running flag, and the three configurations it was created
    from.
  \<^item> An exec session belongs to a container and holds the command it runs.
  \<^item> Every client call is written to \<open>log\<close> with the error it returned, if any (a
    creation with the name and the image asked for). The
    call with number \<open>n\<close> (the length of the log when it is made) fails when \<open>faults n\<close>
    holds, so any pattern of daemon failures can be written down.
  \<^item> What the daemon cannot decide from its state is a field that is never updated: the
    identifiers it hands out (\<open>fresh\<close>), what a container's main process does
    (\<open>program\<close>: exit status, log text, and the error reading the log ends with) and
    what a command run inside a container does (\<open>shell\<close>).
  Every call is taken to return.
\<close>

record Config =
  Config_Tty :: bool
  Config_Image :: string
  Config_ExposedPorts :: "(string \<times> unit) list"
  Config_Cmd :: "string list"
  Config_Hostname :: string
  Config_Env :: "string list"
  Config_Labels :: "string \<rightharpoonup> string"

record HostConfig =
  HostConfig_PortBindings :: "(string \<times> PortBinding list) list"
  HostConfig_Mounts :: "Mount list"

record NetworkingConfig =
  EndpointsConfig :: "(string \<times> unit) list"

definition HostConfig_zero :: HostConfig where
  "HostConfig_zero = \<lparr>HostConfig_PortBindings = [], HostConfig_Mounts = []\<rparr>"

definition NetworkingConfig_zero :: NetworkingConfig where
  "NetworkingConfig_zero = \<lparr>EndpointsConfig = []\<rparr>"

record container =
  ID :: string
  Names :: "string list"
  Running :: bool
  Config :: Config
  Host :: HostConfig
  Networking :: NetworkingConfig

datatype frame = Stdout string | Stderr string

record exec_outcome =
  frames :: "frame list"
  read_error :: "error option"
  exit_code :: int

record run_outcome =
  exit_status :: int
  log_text :: string
  log_error :: "error option"

record ExecConfig =
  ExecConfig_AttachStdout :: bool
  ExecConfig_AttachStderr :: bool
  ExecConfig_Cmd :: "string list"

record exec_session =
  ExecID :: string
  Container :: string
  Session :: ExecConfig

record NetworkResource =
  NetworkResource_ID :: string
  NetworkResource_Name :: string
  NetworkResource_Driver :: string

definition NetworkResource_zero :: NetworkResource where
  "NetworkResource_zero =
     \<lparr>NetworkResource_ID = [], NetworkResource_Name = [], NetworkResource_Driver = []\<rparr>"

text \<open>
  \<open>types.ContainerListOptions\<close>: \<open>All\<close> (here \<open>AllContainers\<close>) lists stopped containers too;
  \<open>Filters\<close> holds the pairs added with \<open>filters.Args.Add\<close>.
\<close>

record ContainerListOptions =
  AllContainers :: bool
  Filters :: "(string \<times> string) list"

definition ContainerListOptions_zero :: ContainerListOptions where
  "ContainerListOptions_zero = \<lparr>AllContainers = False, Filters = []\<rparr>"

datatype call =
    Call_ContainerList ContainerListOptions
  | Call_ContainerCreate string string
  | Call_ContainerStart string
  | Call_ContainerStop string
  | Call_ContainerRemove string
  | Call_ContainerWait string
  | Call_ContainerLogs string
  | Call_ContainerInspect string
  | Call_ContainerExecCreate string "string list"
  | Call_ContainerExecAttach string
  | Call_ContainerExecInspect string
  | Call_NetworkList
  | Call_NetworkCreate string
  | Call_NetworkRemove string

text \<open>
  The \<open>http.Client\<close> as far as its TLS configuration goes: whether certificate
  verification is skipped, and the pool of root certificates, if one is attached.
\<close>

record http_client =
  InsecureSkipVerify :: bool
  RootCAs :: "string list option"

text \<open>
  What the process does that takes time: a request, with the client that made it and the
  URL, and a sleep of a number of seconds.
\<close>

datatype event = HttpGet http_client string | Sleep nat

record PluginInfo =
  Name :: string
  Status :: string
  Update :: string
  Version :: string

text \<open>
  The rest of the world: what the process has printed; the file system as far as the
  code reads it (\<open>files\<close>: the content of a file or the error reading it) and the
  answers of \<open>os.Getwd\<close> and \<open>os.MkdirAll\<close>; the site's endpoint, which answers the
  request number \<open>n\<close> of a client with a status code or a transport error; the requests
  and sleeps so far (\<open>trace\<close>); and the library functions the code calls with strings
  only (\<open>nat.NewPort\<close>, \<open>path.Join\<close>, \<open>json.Unmarshal\<close> into a slice of \<open>PluginInfo\<close>);
  the platform \<open>runtime.GOOS\<close>, the answer of \<open>client.NewClientWithOpts\<close>, and the
  outcome of \<open>exec.Command(name, args...).Run()\<close> by its command line. What a started
  program does to the daemon shows in the schedule of faults.
\<close>

record world =
  containers :: "container list"
  execs :: "exec_session list"
  networks :: "NetworkResource list"
  log :: "(call \<times> error option) list"
  created :: nat
  faults :: "nat \<Rightarrow> bool"
  fresh :: "nat \<Rightarrow> string"
  program :: "Config \<Rightarrow> run_outcome"
  shell :: "string \<Rightarrow> string list \<Rightarrow> exec_outcome"
  stdout :: "printed list"
  files :: "string \<Rightarrow> error + string"
  Getwd :: "error + string"
  MkdirAll :: "string \<Rightarrow> error option"
  endpoint :: "http_client \<Rightarrow> nat \<Rightarrow> error + nat"
  trace :: "event list"
  NewPort :: "string \<Rightarrow> string \<Rightarrow> error + string"
  Join :: "string list \<Rightarrow> string"
  Unmarshal :: "string \<Rightarrow> error + PluginInfo list"
  GOOS :: string
  NewClientWithOpts :: "error option"
  Run :: "string list \<Rightarrow> error option"

subsection \<open>Client calls\<close>

text \<open>
  Every client call goes through \<open>daemon_call\<close>: it fails when the schedule says so,
  is served from the state otherwise, and is logged with its outcome.
\<close>

definition logged :: "call \<Rightarrow> error option \<Rightarrow> world \<Rightarrow> world" where
  "logged c e w = w\<lparr>log := log w @ [(c, e)]\<rparr>"

definition daemon_call ::
  "call \<Rightarrow> (world \<Rightarrow> (error + 'a) \<times> world) \<Rightarrow> world \<Rightarrow> (error + 'a) \<times> world" where
  "daemon_call c serve w =
     (if faults w (length (log w))
      then (Inl (DaemonFault (length (log w))),
            logged c (Some (DaemonFault (length (log w)))) w)
      else (case serve w of
              (Inl e, w') \<Rightarrow> (Inl e, logged c (Some e) w')
            | (Inr r, w') \<Rightarrow> (Inr r, logged c None w')))"

definition new_id :: "world \<Rightarrow> string" where
  "new_id w = fresh w (created w)"

definition find_container :: "world \<Rightarrow> string \<Rightarrow> container option" where
  "find_container w cid = find (\<lambda>c. ID c = cid) (containers w)"

definition find_exec :: "world \<Rightarrow> string \<Rightarrow> exec_session option" where
  "find_exec w eid = find (\<lambda>e. ExecID e = eid) (execs w)"

definition set_running :: "string \<Rightarrow> bool \<Rightarrow> world \<Rightarrow> world" where
  "set_running cid b w =
     w\<lparr>containers := map (\<lambda>c. if ID c = cid then c\<lparr>Running := b\<rparr> else c) (containers w)\<rparr>"

text \<open>
  The daemon reads a \<open>label\<close> filter \<open>key\<close> as "carries the label", and \<open>key=value\<close>,
  split at the first \<open>=\<close>, as "carries the label with this value"; it rejects a filter
  of a kind it does not know (here: any other kind).
\<close>

definition label_match :: "string \<Rightarrow> container \<Rightarrow> bool" where
  "label_match v c =
     (case dropWhile (\<lambda>x. x \<noteq> CHR ''='') v of
        [] \<Rightarrow> Config_Labels (Config c) v \<noteq> None
      | eq # val \<Rightarrow> Config_Labels (Config c) (takeWhile (\<lambda>x. x \<noteq> CHR ''='') v) = Some val)"

definition listed :: "ContainerListOptions \<Rightarrow> container \<Rightarrow> bool" where
  "listed options c =
     ((AllContainers options \<or> Running c) \<and>
      list_all (\<lambda>f. label_match (snd f) c) (Filters options))"

definition client_ContainerList ::
  "ContainerListOptions \<Rightarrow> world \<Rightarrow> (error + container list) \<times> world" where
  "client_ContainerList options =
     daemon_call (Call_ContainerList options)
       (\<lambda>w. case filter (\<lambda>f. fst f \<noteq> ''label'') (Filters options) of
               [] \<Rightarrow> (Inr (filter (listed options) (containers w)), w)
             | f # fs \<Rightarrow> (Inl (InvalidFilter (fst f)), w))"

text \<open>
  Creating a container. The daemon stores the name with a leading \<open>/\<close>, adding it when
  the caller's name has none; it makes up a name (here: from the identifier) when none is
  given, and refuses a name that is in use, by a running container or a stopped one.
\<close>

definition stored_name :: "world \<Rightarrow> string \<Rightarrow> string" where
  "stored_name w name =
     (case name of
        [] \<Rightarrow> CHR ''/'' # new_id w
      | c # cs \<Rightarrow> if c = CHR ''/'' then name else CHR ''/'' # name)"

definition client_ContainerCreate ::
  "Config \<Rightarrow> HostConfig \<Rightarrow> NetworkingConfig \<Rightarrow> string \<Rightarrow> world \<Rightarrow> (error + string) \<times> world" where
  "client_ContainerCreate config hostConfig networkingConfig containerName =
     daemon_call (Call_ContainerCreate containerName (Config_Image config))
       (\<lambda>w. if list_ex (\<lambda>c. stored_name w containerName \<in> set (Names c)) (containers w)
             then (Inl (NameConflict (stored_name w containerName)), w)
             else (Inr (new_id w),
                   w\<lparr>containers := containers w @
                        [\<lparr>ID = new_id w, Names = [stored_name w containerName],
                          Running = False, Config = config, Host = hostConfig,
                          Networking = networkingConfig\<rparr>],
                     created := Suc (created w)\<rparr>))"

definition client_ContainerStart :: "string \<Rightarrow> world \<Rightarrow> (error + unit) \<times> world" where
  "client_ContainerStart cid =
     daemon_call (Call_ContainerStart cid)
       (\<lambda>w. case find_container w cid of
               None \<Rightarrow> (Inl (NoSuchContainer cid), w)
             | Some c \<Rightarrow> (Inr (), set_running cid True w))"

definition client_ContainerStop :: "string \<Rightarrow> world \<Rightarrow> (error + unit) \<times> world" where
  "client_ContainerStop cid =
     daemon_call (Call_ContainerStop cid)
       (\<lambda>w. case find_container w cid of
               None \<Rightarrow> (Inl (NoSuchContainer cid), w)
             | Some c \<Rightarrow> (Inr (), set_running cid False w))"

text \<open>Removing, without the force option: the daemon refuses to remove a running container.\<close>

definition client_ContainerRemove :: "string \<Rightarrow> world \<Rightarrow> (error + unit) \<times> world" where
  "client_ContainerRemove cid =
     daemon_call (Call_ContainerRemove cid)
       (\<lambda>w. case find_container w cid of
               None \<Rightarrow> (Inl (NoSuchContainer cid), w)
             | Some c \<Rightarrow>
                 if Running c then (Inl (StillRunning cid), w)
                 else (Inr (), w\<lparr>containers := filter (\<lambda>c. ID c \<noteq> cid) (containers w)\<rparr>))"

text \<open>
  Waiting answers once the container's main process has ended: with the exit status of
  its program, and with the container no longer running.
\<close>

definition client_ContainerWait :: "string \<Rightarrow> world \<Rightarrow> (error + int) \<times> world" where
  "client_ContainerWait cid =
     daemon_call (Call_ContainerWait cid)
       (\<lambda>w. case find_container w cid of
               None \<Rightarrow> (Inl (NoSuchContainer cid), w)
             | Some c \<Rightarrow> (Inr (exit_status (program w (Config c))), set_running cid False w))"

text \<open>The log stream: its content, and the error reading it ends with, if any.\<close>

definition client_ContainerLogs ::
  "string \<Rightarrow> world \<Rightarrow> (error + string \<times> error option) \<times> world" where
  "client_ContainerLogs cid =
     daemon_call (Call_ContainerLogs cid)
       (\<lambda>w. case find_container w cid of
               None \<Rightarrow> (Inl (NoSuchContainer cid), w)
             | Some c \<Rightarrow>
                 (Inr (log_text (program w (Config c)), log_error (program w (Config c))), w))"

definition mount_point :: "Mount \<Rightarrow> MountPoint" where
  "mount_point m =
     \<lparr>MountPoint_Type = Mount_Type m, MountPoint_Source = Mount_Source m,
      MountPoint_Destination = Mount_Target m\<rparr>"

definition client_ContainerInspect :: "string \<Rightarrow> world \<Rightarrow> (error + MountPoint list) \<times> world" where
  "client_ContainerInspect cid =
     daemon_call (Call_ContainerInspect cid)
       (\<lambda>w. case find_container w cid of
               None \<Rightarrow> (Inl (NoSuchContainer cid), w)
             | Some c \<Rightarrow> (Inr (map mount_point (HostConfig_Mounts (Host c))), w))"

definition client_ContainerExecCreate ::
  "string \<Rightarrow> ExecConfig \<Rightarrow> world \<Rightarrow> (error + string) \<times> world" where
  "client_ContainerExecCreate cid config =
     daemon_call (Call_ContainerExecCreate cid (ExecConfig_Cmd config))
       (\<lambda>w. case find_container w cid of
               None \<Rightarrow> (Inl (NoSuchContainer cid), w)
             | Some c \<Rightarrow>
                 if \<not> Running c then (Inl (NotRunning cid), w)
                 else (Inr (new_id w),
                       w\<lparr>execs := execs w @
                            [\<lparr>ExecID = new_id w, Container = cid, Session = config\<rparr>],
                         created := Suc (created w)\<rparr>))"

text \<open>
  Attaching starts the command and hands back the multiplexed stream: the frames the
  command wrote, and the error reading the stream ends with, if any.
\<close>

definition client_ContainerExecAttach ::
  "string \<Rightarrow> world \<Rightarrow> (error + frame list \<times> error option) \<times> world" where
  "client_ContainerExecAttach eid =
     daemon_call (Call_ContainerExecAttach eid)
       (\<lambda>w. case find_exec w eid of
               None \<Rightarrow> (Inl (NoSuchExec eid), w)
             | Some e \<Rightarrow>
                 (Inr (frames (shell w (Container e) (ExecConfig_Cmd (Session e))),
                       read_error (shell w (Container e) (ExecConfig_Cmd (Session e)))), w))"

definition client_ContainerExecInspect :: "string \<Rightarrow> world \<Rightarrow> (error + int) \<times> world" where
  "client_ContainerExecInspect eid =
     daemon_call (Call_ContainerExecInspect eid)
       (\<lambda>w. case find_exec w eid of
               None \<Rightarrow> (Inl (NoSuchExec eid), w)
             | Some e \<Rightarrow>
                 (Inr (exit_code (shell w (Container e) (ExecConfig_Cmd (Session e)))), w))"

definition client_NetworkList :: "world \<Rightarrow> (error + NetworkResource list) \<times> world" where
  "client_NetworkList = daemon_call Call_NetworkList (\<lambda>w. (Inr (networks w), w))"

definition client_NetworkCreate :: "string \<Rightarrow> string \<Rightarrow> world \<Rightarrow> (error + string) \<times> world" where
  "client_NetworkCreate name driver =
     daemon_call (Call_NetworkCreate name)
       (\<lambda>w. (Inr (new_id w),
              w\<lparr>networks := networks w @
                   [\<lparr>NetworkResource_ID = new_id w, NetworkResource_Name = name,
                     NetworkResource_Driver = driver\<rparr>],
                created := Suc (created w)\<rparr>))"

definition client_NetworkRemove :: "string \<Rightarrow> world \<Rightarrow> (error + unit) \<times> world" where
  "client_NetworkRemove nid =
     daemon_call (Call_NetworkRemove nid)
       (\<lambda>w. case find (\<lambda>n. NetworkResource_ID n = nid) (networks w) of
               None \<Rightarrow> (Inl (NoSuchNetwork nid), w)
             | Some n \<Rightarrow>
                 (Inr (), w\<lparr>networks := filter (\<lambda>n. NetworkResource_ID n \<noteq> nid) (networks w)\<rparr>))"

text \<open>
  \<open>stdcopy.StdCopy(dstout, dsterr, src)\<close>: each frame goes to the writer its header names;
  the error is the one the stream ended with.
\<close>

fun StdCopy_frames :: "frame list \<Rightarrow> string \<times> string \<Rightarrow> string \<times> string" where
  "StdCopy_frames [] (outBuf, errBuf) = (outBuf, errBuf)"
| "StdCopy_frames (Stdout s # fs) (outBuf, errBuf) = StdCopy_frames fs (outBuf @ s, errBuf)"
| "StdCopy_frames (Stderr s # fs) (outBuf, errBuf) = StdCopy_frames fs (outBuf, errBuf @ s)"

definition StdCopy :: "frame list \<times> error option \<Rightarrow> (string \<times> string) \<times> error option" where
  "StdCopy reader = (StdCopy_frames (fst reader) ([], []), snd reader)"

subsection \<open>Requests and time\<close>

definition is_HttpGet :: "event \<Rightarrow> bool" where
  "is_HttpGet e = (case e of HttpGet c u \<Rightarrow> True | Sleep n \<Rightarrow> False)"

definition is_Sleep :: "event \<Rightarrow> bool" where
  "is_Sleep e = (case e of HttpGet c u \<Rightarrow> False | Sleep n \<Rightarrow> True)"

text \<open>
  \<open>client.Get(url)\<close>: the endpoint answers the request by its number, and the request
  is written to the trace. \<open>time.Sleep\<close> of a number of seconds is written there too.
\<close>

definition http_Get :: "http_client \<Rightarrow> string \<Rightarrow> world \<Rightarrow> (error + nat) \<times> world" where
  "http_Get client u w =
     (endpoint w client (length (filter is_HttpGet (trace w))),
      w\<lparr>trace := trace w @ [HttpGet client u]\<rparr>)"

definition time_Sleep :: "nat \<Rightarrow> world \<Rightarrow> world" where
  "time_Sleep seconds w = w\<lparr>trace := trace w @ [Sleep seconds]\<rparr>"

section \<open>The engine client adapter (package docker)\<close>

text \<open>
  A method of \<open>DockerClient\<close> takes the world last and returns what the Go method
  returns, an error as \<open>error option\<close> (\<open>None\<close> is \<open>nil\<close>), together with the world
  it leaves.
\<close>

subsection \<open>Connecting\<close>

text \<open>
  \<open>DockerClient\<close> holds the client of the library and nothing else; the daemon it talks to
  is in the world.
\<close>

datatype DockerClient = DockerClient

text \<open>
  The loop of \<open>ensureDockerIsAvailable\<close>, entered with the counter \<open>retries\<close>, a Go \<open>int\<close>
  of 64 bits, and the error \<open>err\<close> of the function. When the loop is left by its
  condition the function returns \<open>err\<close>.
\<close>

function ensureDockerIsAvailable_loop :: "64 word \<Rightarrow> error option \<Rightarrow> world \<Rightarrow> error option \<times> world" where
  "ensureDockerIsAvailable_loop retries err w =
     (if sint retries \<le> 12
      then (if retries + 1 = 12
            then (Some (Errorf ''error: unable to start Docker for Mac''),
                  w\<lparr>stdout := stdout w @
                       [Println ''Restarting Docker is taking too long. We seem to have hit an error'']\<rparr>)
            else (case client_ContainerList ContainerListOptions_zero (time_Sleep 5 w) of
                    (Inr cs, w1) \<Rightarrow> (None, w1)
                  | (Inl err', w1) \<Rightarrow> ensureDockerIsAvailable_loop (retries + 1) (Some err') w1))
      else (err, w))"
  by pat_completeness auto
termination
proof (relation "measure (\<lambda>(retries, err, w). unat (11 - retries))")
  show "wf (measure (\<lambda>(retries, err, w). unat (11 - retries)))"
    by simp
next
  fix retries :: "64 word" and err :: "error option" and w :: world
    and x :: "(error + container list) \<times> world" and x1 :: "error + container list"
    and w1 :: world and err' :: error
  assume "retries + 1 \<noteq> 12"
  then have "11 - retries \<noteq> 0"
    by auto
  then have "unat (11 - retries - 1) < unat (11 - retries)"
    by (rule measure_unat)
  moreover have "11 - retries - 1 = 11 - (retries + 1)"
    by simp
  ultimately have "unat (11 - (retries + 1)) < unat (11 - retries)"
    by (simp only:)
  then show "((retries + 1, Some err', w1), retries, err, w)
             \<in> measure (\<lambda>(retries, err, w). unat (11 - retries))"
    by simp
qed

definition ensureDockerIsAvailable :: "world \<Rightarrow> error option \<times> world" where
  "ensureDockerIsAvailable w =
     (case client_ContainerList ContainerListOptions_zero w of
        (Inr cs, w1) \<Rightarrow> (None, w1)
      | (Inl err, w1) \<Rightarrow>
          if GOOS w1 = ''darwin''
          then (let w2 = w1\<lparr>stdout := stdout w1 @
                           [Println (''Docker doesn'' @ [CHR 0x27]
                              @ ''t appear to be running. Trying to start Docker.'')]\<rparr>
                in (case Run w2 [''open'', ''-a'', ''Docker''] of
                      Some err' \<Rightarrow> (Some (Errorf ''error: unable to start Docker for Mac''), w2)
                    | None \<Rightarrow> ensureDockerIsAvailable_loop 0 None w2))
          else (Some err, w1))"

definition NewController :: "world \<Rightarrow> (DockerClient option \<times> error option) \<times> world" where
  "NewController w =
     (case NewClientWithOpts w of
        Some err \<Rightarrow> ((None, Some err), w)
      | None \<Rightarrow>
          (case ensureDockerIsAvailable w of
             (Some err, w1) \<Rightarrow> ((None, Some err), w1)
           | (None, w1) \<Rightarrow> ((Some DockerClient, None), w1)))"

subsection \<open>Containers\<close>

definition ListContainers :: "string \<Rightarrow> world \<Rightarrow> (string list \<times> error option) \<times> world" where
  "ListContainers site w =
     (let f = (if length site = 0 then [(''label'', ''kana.site'')]
               else [(''label'', ''kana.site='' @ site)]);
          options = \<lparr>AllContainers = True, Filters = f\<rparr>
      in (case client_ContainerList options w of
            (Inl err, w1) \<Rightarrow> (([], Some err), w1)
          | (Inr cs, w1) \<Rightarrow> ((map ID cs, None), w1)))"

text \<open>
  The two nested loops of \<open>IsContainerRunning\<close>: the first container, in the order of the
  listing, one of whose names equals \<open>containerName\<close> once trimmed of \<open>/\<close>.
\<close>

fun IsContainerRunning_loop :: "string \<Rightarrow> container list \<Rightarrow> string \<times> bool" where
  "IsContainerRunning_loop containerName [] = ([], False)"
| "IsContainerRunning_loop containerName (c # cs) =
     (if containerName \<in> set (map (\<lambda>name. Trim name ''/'') (Names c)) then (ID c, True)
      else IsContainerRunning_loop containerName cs)"

definition IsContainerRunning :: "string \<Rightarrow> world \<Rightarrow> (string \<times> bool) \<times> world" where
  "IsContainerRunning containerName w =
     (case client_ContainerList ContainerListOptions_zero w of
        (Inl err, w1) \<Rightarrow> (([], False), w1)
      | (Inr cs, w1) \<Rightarrow> (IsContainerRunning_loop containerName cs, w1))"

definition ContainerGetMounts :: "string \<Rightarrow> world \<Rightarrow> MountPoint list \<times> world" where
  "ContainerGetMounts containerName w =
     (case IsContainerRunning containerName w of
        ((containerID, isRunning), w1) \<Rightarrow>
          if \<not> isRunning then ([], w1)
          else (case client_ContainerInspect containerID w1 of
                  (Inl err, w2) \<Rightarrow> ([], w2)
                | (Inr mounts, w2) \<Rightarrow> (mounts, w2)))"

text \<open>\<open>getNetworkConfig\<close> panics on the first port that \<open>nat.NewPort\<close> rejects.\<close>

fun getNetworkConfig_loop :: "world \<Rightarrow> ExposedPorts list \<Rightarrow> portConfig \<Rightarrow> error + portConfig" where
  "getNetworkConfig_loop w [] pc = Inr pc"
| "getNetworkConfig_loop w (port # ports) pc =
     (case NewPort w (Protocol port) (Port port) of
        Inl err \<Rightarrow> Inl (Panic err)
      | Inr portName \<Rightarrow>
          getNetworkConfig_loop w ports
            \<lparr>PortBindings = map_set (PortBindings pc) portName [\<lparr>HostPort = Port port\<rparr>],
             PortSet = map_set (PortSet pc) portName ()\<rparr>)"

definition getNetworkConfig :: "world \<Rightarrow> ExposedPorts list \<Rightarrow> error + portConfig" where
  "getNetworkConfig w ports = getNetworkConfig_loop w ports \<lparr>PortBindings = [], PortSet = []\<rparr>"

definition ContainerRun :: "ContainerConfig \<Rightarrow> world \<Rightarrow> (string \<times> error option) \<times> world" where
  "ContainerRun config w =
     (case IsContainerRunning (ContainerConfig.Name config) w of
        ((containerID, isRunning), w1) \<Rightarrow>
          if isRunning then ((containerID, None), w1)
          else (case getNetworkConfig w1 (Ports config) of
                  Inl err \<Rightarrow> (([], Some err), w1)
                | Inr containerPorts \<Rightarrow>
                    (let hostConfig =
                           (if length (PortBindings containerPorts) > 0
                            then HostConfig_zero
                                   \<lparr>HostConfig_PortBindings := PortBindings containerPorts\<rparr>
                            else HostConfig_zero);
                         networkConfig =
                           (if length (NetworkName config) > 0
                            then \<lparr>EndpointsConfig = [(NetworkName config, ())]\<rparr>
                            else NetworkingConfig_zero);
                         hostConfig = hostConfig\<lparr>HostConfig_Mounts := Volumes config\<rparr>
                     in (case client_ContainerCreate
                                \<lparr>Config_Tty = True, Config_Image = Image config,
                                 Config_ExposedPorts = PortSet containerPorts,
                                 Config_Cmd = Command config, Config_Hostname = HostName config,
                                 Config_Env = Env config, Config_Labels = Labels config\<rparr>
                                hostConfig networkConfig (ContainerConfig.Name config) w1 of
                           (Inl err, w2) \<Rightarrow> (([], Some err), w2)
                         | (Inr respID, w2) \<Rightarrow>
                             (case client_ContainerStart respID w2 of
                                (Inl err, w3) \<Rightarrow> (([], Some err), w3)
                              | (Inr u, w3) \<Rightarrow> ((respID, None), w3))))))"

definition ContainerWait :: "string \<Rightarrow> world \<Rightarrow> (int \<times> error option) \<times> world" where
  "ContainerWait cid w =
     (case client_ContainerWait cid w of
        (Inl err, w1) \<Rightarrow> ((0, Some err), w1)
      | (Inr statusCode, w1) \<Rightarrow> ((statusCode, None), w1))"

text \<open>\<open>io.ReadAll\<close> gives what it read and the error it stopped at; the code lets \<open>io.EOF\<close> pass.\<close>

definition ContainerLog :: "string \<Rightarrow> world \<Rightarrow> (string \<times> error option) \<times> world" where
  "ContainerLog cid w =
     (case client_ContainerLogs cid w of
        (Inl err, w1) \<Rightarrow> (([], Some err), w1)
      | (Inr reader, w1) \<Rightarrow>
          (case snd reader of
             None \<Rightarrow> ((fst reader, None), w1)
           | Some err \<Rightarrow>
               if err \<noteq> EOF then (([], Some err), w1) else ((fst reader, None), w1)))"

definition ContainerRunAndClean ::
  "ContainerConfig \<Rightarrow> world \<Rightarrow> (int \<times> string \<times> error option) \<times> world" where
  "ContainerRunAndClean config w =
     (case ContainerRun config w of
        ((cid, Some err), w1) \<Rightarrow> ((0, [], Some err), w1)
      | ((cid, None), w1) \<Rightarrow>
          (case ContainerWait cid w1 of
             ((statusCode, Some err), w2) \<Rightarrow> ((statusCode, [], Some err), w2)
           | ((statusCode, None), w2) \<Rightarrow>
               (case ContainerLog cid w2 of
                  ((body, ignored), w3) \<Rightarrow>
                    (case client_ContainerRemove cid w3 of
                       (Inl err, w4) \<Rightarrow>
                         ((statusCode, body, Some err),
                          w4\<lparr>stdout := stdout w4 @
                                [Printf (''Unable to remove container %q: %q'' @ [CHR 0x0A])
                                   [String cid, Error err]]\<rparr>)
                     | (Inr u, w4) \<Rightarrow> ((statusCode, body, None), w4)))))"

definition ContainerStop :: "string \<Rightarrow> world \<Rightarrow> (bool \<times> error option) \<times> world" where
  "ContainerStop containerName w =
     (case IsContainerRunning containerName w of
        ((containerID, isRunning), w1) \<Rightarrow>
          if \<not> isRunning then ((True, None), w1)
          else (case client_ContainerStop containerID w1 of
                  (Inl err, w2) \<Rightarrow> ((False, Some err), w2)
                | (Inr u, w2) \<Rightarrow>
                    (case client_ContainerRemove containerID w2 of
                       (Inl err, w3) \<Rightarrow> ((False, Some err), w3)
                     | (Inr u', w3) \<Rightarrow> ((True, None), w3))))"

definition ContainerRestart :: "string \<Rightarrow> world \<Rightarrow> (bool \<times> error option) \<times> world" where
  "ContainerRestart containerName w =
     (case IsContainerRunning containerName w of
        ((containerID, isRunning), w1) \<Rightarrow>
          if \<not> isRunning then ((True, None), w1)
          else (case client_ContainerStop containerID w1 of
                  (Inl err, w2) \<Rightarrow> ((False, Some err), w2)
                | (Inr u, w2) \<Rightarrow>
                    (case client_ContainerStart containerID w2 of
                       (Inl err, w3) \<Rightarrow> ((False, Some err), w3)
                     | (Inr u', w3) \<Rightarrow> ((True, None), w3))))"

text \<open>
  In \<open>ContainerExec\<close> the goroutine that copies the stream and the \<open>select\<close> on its
  channel are sequential here: \<open>context.Background().Done()\<close> is never ready, so the
  \<open>select\<close> takes the result of the copy.
\<close>

definition ContainerExec :: "string \<Rightarrow> string list \<Rightarrow> world \<Rightarrow> (ExecResult \<times> error option) \<times> world" where
  "ContainerExec containerName command w =
     (case IsContainerRunning containerName w of
        ((containerID, isRunning), w1) \<Rightarrow>
          if \<not> isRunning then ((ExecResult_zero, None), w1)
          else
            (let fullCommand = [''sh'', ''-c''] @ command;
                 execConfig = \<lparr>ExecConfig_AttachStdout = True, ExecConfig_AttachStderr = True,
                               ExecConfig_Cmd = fullCommand\<rparr>
             in (case client_ContainerExecCreate containerID execConfig w1 of
                   (Inl err, w2) \<Rightarrow> ((ExecResult_zero, Some err), w2)
                 | (Inr execID, w2) \<Rightarrow>
                     (case client_ContainerExecAttach execID w2 of
                        (Inl err, w3) \<Rightarrow> ((ExecResult_zero, Some err), w3)
                      | (Inr aresp, w3) \<Rightarrow>
                          (case StdCopy aresp of
                             (bufs, Some err) \<Rightarrow> ((ExecResult_zero, Some err), w3)
                           | (bufs, None) \<Rightarrow>
                               (case client_ContainerExecInspect execID w3 of
                                  (Inl err, w4) \<Rightarrow> ((ExecResult_zero, Some err), w4)
                                | (Inr code, w4) \<Rightarrow>
                                    ((\<lparr>StdOut = fst bufs, StdErr = snd bufs, ExitCode = code\<rparr>,
                                      None), w4)))))))"

subsection \<open>Networks\<close>

definition findNetworkByName ::
  "string \<Rightarrow> world \<Rightarrow> (bool \<times> NetworkResource \<times> error option) \<times> world" where
  "findNetworkByName name w =
     (case client_NetworkList w of
        (Inl err, w1) \<Rightarrow> ((False, NetworkResource_zero, Some err), w1)
      | (Inr ns, w1) \<Rightarrow>
          (case find (\<lambda>n. NetworkResource_Name n = name) ns of
             Some n \<Rightarrow> ((True, n, None), w1)
           | None \<Rightarrow> ((False, NetworkResource_zero, None), w1)))"

definition findNetworkById ::
  "string \<Rightarrow> world \<Rightarrow> (bool \<times> NetworkResource \<times> error option) \<times> world" where
  "findNetworkById nid w =
     (case client_NetworkList w of
        (Inl err, w1) \<Rightarrow> ((False, NetworkResource_zero, Some err), w1)
      | (Inr ns, w1) \<Rightarrow>
          (case find (\<lambda>n. NetworkResource_ID n = nid) ns of
             Some n \<Rightarrow> ((True, n, None), w1)
           | None \<Rightarrow> ((False, NetworkResource_zero, None), w1)))"

definition EnsureNetwork ::
  "string \<Rightarrow> world \<Rightarrow> (bool \<times> NetworkResource \<times> error option) \<times> world" where
  "EnsureNetwork name w =
     (case findNetworkByName name w of
        ((hasNetwork, network, Some err), w1) \<Rightarrow> ((False, NetworkResource_zero, Some err), w1)
      | ((hasNetwork, network, None), w1) \<Rightarrow>
          if hasNetwork then ((False, network, None), w1)
          else (case client_NetworkCreate name ''bridge'' w1 of
                  (Inl err, w2) \<Rightarrow> ((False, NetworkResource_zero, Some err), w2)
                | (Inr nid, w2) \<Rightarrow>
                    (case findNetworkById nid w2 of
                       ((hasNetwork', network', Some err), w3) \<Rightarrow>
                         ((False, NetworkResource_zero, Some err), w3)
                     | ((hasNetwork', network', None), w3) \<Rightarrow>
                         if hasNetwork' then ((True, network', None), w3)
                         else ((False, NetworkResource_zero,
                                Some (Errorf ''could not create network'')), w3))))"

definition RemoveNetwork :: "string \<Rightarrow> world \<Rightarrow> (bool \<times> error option) \<times> world" where
  "RemoveNetwork name w =
     (case findNetworkByName name w of
        ((hasNetwork, network, Some err), w1) \<Rightarrow> ((False, Some err), w1)
      | ((hasNetwork, network, None), w1) \<Rightarrow>
          if \<not> hasNetwork then ((False, None), w1)
          else (case client_NetworkRemove (NetworkResource_ID network) w1 of
                  (Inl err, w2) \<Rightarrow> ((True, Some err), w2)
                | (Inr u, w2) \<Rightarrow> ((True, None), w2)))"

section \<open>The site (package site)\<close>

text \<open>
  A \<open>viper.Viper\<close> configuration, as far as the code reads it. \<open>appConfig.StaticConfig\<close> with
  the fields the code uses.
\<close>

record viper =
  GetString :: "string \<Rightarrow> string"
  GetBool :: "string \<Rightarrow> bool"
  GetStringSlice :: "string \<Rightarrow> string list"

record StaticConfig =
  AppDirectory :: string
  AppDomain :: string
  RootCert :: string
  SiteDirectory :: string
  SiteName :: string
  WorkingDirectory :: string

record Site =
  StaticConfig :: StaticConfig
  DynamicConfig :: viper
  SiteConfig :: viper
  rootCert :: string
  siteDomain :: string
  secureURL :: string
  url :: string

record CurrentConfig =
  Type :: string
  Local :: bool
  Xdebug :: bool

text \<open>
  Functions of the repository that are not among the source files at hand are
  parameters: \<open>DockerClient.EnsureImage\<close>, \<open>Site.GetRunningConfig\<close> and \<open>Site.IsLocalSite\<close>.
\<close>

record externals =
  EnsureImage :: "string \<Rightarrow> world \<Rightarrow> error option \<times> world"
  GetRunningConfig :: "Site \<Rightarrow> world \<Rightarrow> CurrentConfig \<times> world"
  IsLocalSite :: "Site \<Rightarrow> world \<Rightarrow> bool"

definition IsSiteRunning :: "Site \<Rightarrow> world \<Rightarrow> bool \<times> world" where
  "IsSiteRunning s w =
     (case ListContainers (SiteName (StaticConfig s)) w of
        ((containerIds, ignored), w1) \<Rightarrow> (length containerIds \<noteq> 0, w1))"

definition getLocalAppDir :: "world \<Rightarrow> string \<times> error option" where
  "getLocalAppDir w =
     (case Getwd w of
        Inl err \<Rightarrow> ([], Some err)
      | Inr cwd \<Rightarrow>
          (let localAppDir = Join w [cwd, ''wordpress'']
           in (case MkdirAll w localAppDir of
                 Some err \<Rightarrow> ([], Some err)
               | None \<Rightarrow> (localAppDir, None))))"

definition getMounts :: "Site \<Rightarrow> string \<Rightarrow> string \<Rightarrow> world \<Rightarrow> Mount list \<times> error option" where
  "getMounts s appDir siteType w =
     (let appVolumes =
            [\<lparr>Mount_Type = ''bind'', Mount_Source = appDir, Mount_Target = ''/var/www/html''\<rparr>]
      in (case Getwd w of
            Inl err \<Rightarrow> (appVolumes, Some err)
          | Inr cwd \<Rightarrow>
              (let appVolumes =
                     (if siteType = ''plugin''
                      then appVolumes @
                             [\<lparr>Mount_Type = ''bind'', Mount_Source = cwd,
                               Mount_Target =
                                 Join w [''/var/www/html'', ''wp-content'', ''plugins'',
                                         SiteName (StaticConfig s)]\<rparr>]
                      else appVolumes);
                   appVolumes =
                     (if siteType = ''theme''
                      then appVolumes @
                             [\<lparr>Mount_Type = ''bind'', Mount_Source = cwd,
                               Mount_Target =
                                 Join w [''/var/www/html'', ''wp-content'', ''themes'',
                                         SiteName (StaticConfig s)]\<rparr>]
                      else appVolumes)
               in (appVolumes, None))))"

text \<open>The slice \<open>wordPressContainers\<close> of \<open>StartWordPress\<close>: the database and the app container.\<close>

definition wordPressContainers :: "Site \<Rightarrow> string \<Rightarrow> Mount list \<Rightarrow> ContainerConfig list" where
  "wordPressContainers s databaseDir appVolumes =
     [\<lparr>ContainerConfig.Name = ''kana_'' @ SiteName (StaticConfig s) @ ''_database'',
       Image = ''mariadb'',
       Ports = [],
       HostName = ''kana_'' @ SiteName (StaticConfig s) @ ''_database'',
       NetworkName = ''kana'',
       Volumes =
         [\<lparr>Mount_Type = ''bind'', Mount_Source = databaseDir, Mount_Target = ''/var/lib/mysql''\<rparr>],
       Command = [],
       Env = [''MARIADB_ROOT_PASSWORD=password'', ''MARIADB_DATABASE=wordpress'',
              ''MARIADB_USER=wordpress'', ''MARIADB_PASSWORD=wordpress''],
       Labels = [''kana.site'' \<mapsto> SiteName (StaticConfig s)]\<rparr>,
      \<lparr>ContainerConfig.Name = ''kana_'' @ SiteName (StaticConfig s) @ ''_wordpress'',
       Image = ''wordpress:php'' @ GetString (SiteConfig s) ''php'',
       Ports = [],
       HostName = ''kana_'' @ SiteName (StaticConfig s) @ ''_wordpress'',
       NetworkName = ''kana'',
       Volumes = appVolumes,
       Command = [],
       Env = [''WORDPRESS_DB_HOST=kana_'' @ SiteName (StaticConfig s) @ ''_database'',
              ''WORDPRESS_DB_USER=wordpress'', ''WORDPRESS_DB_PASSWORD=wordpress'',
              ''WORDPRESS_DB_NAME=wordpress''],
       Labels =
         [''traefik.enable'' \<mapsto> ''true'',
          ''traefik.http.routers.wordpress-'' @ SiteName (StaticConfig s) @ ''-http.entrypoints''
            \<mapsto> ''web'',
          ''traefik.http.routers.wordpress-'' @ SiteName (StaticConfig s) @ ''-http.rule''
            \<mapsto> ''Host(`'' @ SiteName (StaticConfig s) @ ''.'' @ AppDomain (StaticConfig s) @ ''`)'',
          ''traefik.http.routers.wordpress-'' @ SiteName (StaticConfig s) @ ''.entrypoints''
            \<mapsto> ''websecure'',
          ''traefik.http.routers.wordpress-'' @ SiteName (StaticConfig s) @ ''.rule''
            \<mapsto> ''Host(`'' @ SiteName (StaticConfig s) @ ''.'' @ AppDomain (StaticConfig s) @ ''`)'',
          ''traefik.http.routers.wordpress-'' @ SiteName (StaticConfig s) @ ''.tls''
            \<mapsto> ''true'',
          ''kana.site'' \<mapsto> SiteName (StaticConfig s)]\<rparr>]"

fun StartWordPress_loop :: "externals \<Rightarrow> ContainerConfig list \<Rightarrow> world \<Rightarrow> error option \<times> world" where
  "StartWordPress_loop X [] w = (None, w)"
| "StartWordPress_loop X (container # rest) w =
     (case EnsureImage X (Image container) w of
        (Some err, w1) \<Rightarrow> (Some err, w1)
      | (None, w1) \<Rightarrow>
          (case ContainerRun container w1 of
             ((cid, Some err), w2) \<Rightarrow> (Some err, w2)
           | ((cid, None), w2) \<Rightarrow> StartWordPress_loop X rest w2))"

text \<open>
  \<open>os.Stat\<close> succeeds on a file that can be read; \<open>os.Remove\<close>, whose result the code
  drops, leaves the file absent.
\<close>

definition os_Remove :: "string \<Rightarrow> world \<Rightarrow> world" where
  "os_Remove p w = w\<lparr>files := (files w)(p := Inl (OSError ''no such file or directory''))\<rparr>"

definition StartWordPress :: "externals \<Rightarrow> Site \<Rightarrow> world \<Rightarrow> error option \<times> world" where
  "StartWordPress X s w =
     (case EnsureNetwork ''kana'' w of
        ((c, n, Some err), w1) \<Rightarrow> (Some err, w1)
      | ((c, n, None), w1) \<Rightarrow>
          (let appDir = Join w1 [SiteDirectory (StaticConfig s), ''app''];
               databaseDir = Join w1 [SiteDirectory (StaticConfig s), ''database''];
               localDir = (if IsLocalSite X s w1 then getLocalAppDir w1 else (appDir, None))
           in (case snd localDir of
                 Some err \<Rightarrow> (Some err, w1)
               | None \<Rightarrow>
                   (let appDir = fst localDir;
                        w2 = (if IsLocalSite X s w1
                              then (case files w1 (Join w1 [appDir, ''wp-config.php'']) of
                                      Inl err \<Rightarrow> w1
                                    | Inr f \<Rightarrow> os_Remove (Join w1 [appDir, ''wp-config.php'']) w1)
                              else w1)
                    in (case MkdirAll w2 appDir of
                          Some err \<Rightarrow> (Some err, w2)
                        | None \<Rightarrow>
                            (case MkdirAll w2 databaseDir of
                               Some err \<Rightarrow> (Some err, w2)
                             | None \<Rightarrow>
                                 (case getMounts s appDir (GetString (SiteConfig s) ''type'') w2 of
                                    (appVolumes, Some err) \<Rightarrow> (Some err, w2)
                                  | (appVolumes, None) \<Rightarrow>
                                      StartWordPress_loop X
                                        (wordPressContainers s databaseDir appVolumes) w2)))))))"

text \<open>The container \<open>RunWPCli\<close> builds for a command, from the mounts it resolved.\<close>

definition RunWPCli_container :: "Site \<Rightarrow> Mount list \<Rightarrow> string list \<Rightarrow> ContainerConfig" where
  "RunWPCli_container s appVolumes fullCommand =
     \<lparr>ContainerConfig.Name = ''kana_'' @ SiteName (StaticConfig s) @ ''_wordpress_cli'',
      Image = ''wordpress:cli-php'' @ GetString (DynamicConfig s) ''php'',
      Ports = [],
      HostName = ''kana_'' @ SiteName (StaticConfig s) @ ''_wordpress_cli'',
      NetworkName = ''kana'',
      Volumes = appVolumes,
      Command = fullCommand,
      Env = [''WORDPRESS_DB_HOST=kana_'' @ SiteName (StaticConfig s) @ ''_database'',
             ''WORDPRESS_DB_USER=wordpress'', ''WORDPRESS_DB_PASSWORD=wordpress'',
             ''WORDPRESS_DB_NAME=wordpress''],
      Labels = [''kana.site'' \<mapsto> SiteName (StaticConfig s)]\<rparr>"

definition RunWPCli ::
  "externals \<Rightarrow> Site \<Rightarrow> string list \<Rightarrow> world \<Rightarrow> (string \<times> error option) \<times> world" where
  "RunWPCli X s command w =
     (case EnsureNetwork ''kana'' w of
        ((c, n, Some err), w1) \<Rightarrow> (([], Some err), w1)
      | ((c, n, None), w1) \<Rightarrow>
          (let siteDir = Join w1 [AppDirectory (StaticConfig s), ''sites'', SiteName (StaticConfig s)];
               appDir = Join w1 [siteDir, ''app'']
           in (case GetRunningConfig X s w1 of
                 (runningConfig, w2) \<Rightarrow>
                   (case (if Local runningConfig then getLocalAppDir w2 else (appDir, None)) of
                      (appDir, Some err) \<Rightarrow> (([], Some err), w2)
                    | (appDir, None) \<Rightarrow>
                        (case getMounts s appDir (Type runningConfig) w2 of
                           (appVolumes, Some err) \<Rightarrow> (([], Some err), w2)
                         | (appVolumes, None) \<Rightarrow>
                             (let fullCommand = [''wp'', ''--path=/var/www/html''] @ command;
                                  container = RunWPCli_container s appVolumes fullCommand
                              in (case EnsureImage X (Image container) w2 of
                                    (Some err, w3) \<Rightarrow> (([], Some err), w3)
                                  | (None, w3) \<Rightarrow>
                                      (case ContainerRunAndClean container w3 of
                                         ((st, out, Some err), w4) \<Rightarrow> (([], Some err), w4)
                                       | ((st, out, None), w4) \<Rightarrow> ((out, None), w4)))))))))"

text \<open>The loop of \<open>GetInstalledWordPressPlugins\<close> over the parsed list, appending to \<open>plugins\<close>.\<close>

fun GetInstalledWordPressPlugins_loop :: "Site \<Rightarrow> PluginInfo list \<Rightarrow> string list \<Rightarrow> string list" where
  "GetInstalledWordPressPlugins_loop s [] plugins = plugins"
| "GetInstalledWordPressPlugins_loop s (plugin # rawPlugins) plugins =
     (if Status plugin \<noteq> ''dropin'' \<and> PluginInfo.Name plugin \<noteq> SiteName (StaticConfig s)
         \<and> PluginInfo.Name plugin \<noteq> ''hello'' \<and> PluginInfo.Name plugin \<noteq> ''akismet''
      then GetInstalledWordPressPlugins_loop s rawPlugins (plugins @ [PluginInfo.Name plugin])
      else GetInstalledWordPressPlugins_loop s rawPlugins plugins)"

definition GetInstalledWordPressPlugins ::
  "externals \<Rightarrow> Site \<Rightarrow> world \<Rightarrow> (string list \<times> error option) \<times> world" where
  "GetInstalledWordPressPlugins X s w =
     (let commands = [''plugin'', ''list'', ''--format=json'']
      in (case RunWPCli X s commands w of
            ((commandOutput, Some err), w1) \<Rightarrow> (([], Some err), w1)
          | ((commandOutput, None), w1) \<Rightarrow>
              (case Unmarshal w1 commandOutput of
                 Inl err \<Rightarrow> (([], Some err), w1)
               | Inr rawPlugins \<Rightarrow>
                   ((GetInstalledWordPressPlugins_loop s rawPlugins [], None), w1))))"

subsection \<open>Readiness\<close>

text \<open>
  The client \<open>VerifySite\<close> builds once the certificate pool is loaded. The pool is in
  scope and not used.
\<close>

definition VerifySite_client :: "string list \<Rightarrow> http_client" where
  "VerifySite_client caCertPool = \<lparr>InsecureSkipVerify = True, RootCAs = None\<rparr>"

text \<open>
  The loop of \<open>VerifySite\<close>, entered with the status code of the last response and the
  counter \<open>tries\<close>, a Go \<open>int\<close> of 64 bits.
\<close>

function VerifySite_loop ::
  "http_client \<Rightarrow> string \<Rightarrow> nat \<Rightarrow> 64 word \<Rightarrow> world \<Rightarrow> (bool \<times> error option) \<times> world" where
  "VerifySite_loop client u StatusCode tries w =
     (if StatusCode = 200 then ((True, None), w)
      else (case http_Get client u w of
              (Inl err, w1) \<Rightarrow> ((False, Some err), w1)
            | (Inr StatusCode', w1) \<Rightarrow>
                if StatusCode' = 200 then ((True, None), w1)
                else if tries = 30
                  then ((False, Some (Errorf ''timeout reached. unable to open site'')), w1)
                else VerifySite_loop client u StatusCode' (tries + 1) (time_Sleep 1 w1)))"
  by pat_completeness auto
termination
proof (relation "measure (\<lambda>(client, u, StatusCode, tries, w). unat (30 - tries))")
  show "wf (measure (\<lambda>(client, u, StatusCode, tries, w). unat (30 - tries)))"
    by simp
next
  fix client :: http_client and u :: string and StatusCode :: nat and tries :: "64 word"
    and w :: world and x :: "(error + nat) \<times> world" and x1 :: "error + nat" and w1 :: world
    and StatusCode' :: nat
  assume "tries \<noteq> 30"
  then have "30 - tries \<noteq> 0"
    by simp
  then have "unat (30 - tries - 1) < unat (30 - tries)"
    by (rule measure_unat)
  moreover have "30 - tries - 1 = 30 - (tries + 1)"
    by simp
  ultimately have "unat (30 - (tries + 1)) < unat (30 - tries)"
    by (simp only:)
  then show "((client, u, StatusCode', tries + 1, time_Sleep 1 w1), client, u, StatusCode, tries, w)
             \<in> measure (\<lambda>(client, u, StatusCode, tries, w). unat (30 - tries))"
    by simp
qed

definition VerifySite :: "Site \<Rightarrow> world \<Rightarrow> (bool \<times> error option) \<times> world" where
  "VerifySite s w =
     (case files w (rootCert s) of
        Inl err \<Rightarrow> ((False, Some err), w)
      | Inr caCert \<Rightarrow>
          (let caCertPool = [caCert];
               client = VerifySite_client caCertPool
           in (case http_Get client (secureURL s) w of
                 (Inl err, w1) \<Rightarrow> ((False, Some err), w1)
               | (Inr StatusCode, w1) \<Rightarrow> VerifySite_loop client (secureURL s) StatusCode 0 w1)))"

subsection \<open>Xdebug\<close>

definition runCli :: "Site \<Rightarrow> string \<Rightarrow> bool \<Rightarrow> world \<Rightarrow> (ExecResult \<times> error option) \<times> world" where
  "runCli s command restart w =
     (let container = ''kana_'' @ SiteName (StaticConfig s) @ ''_wordpress''
      in (case ContainerExec container [command] w of
            ((out, Some err), w1) \<Rightarrow> ((ExecResult_zero, Some err), w1)
          | ((out, None), w1) \<Rightarrow>
              if restart
              then (case ContainerRestart container w1 of ((b, err), w2) \<Rightarrow> ((out, err), w2))
              else ((out, None), w1)))"

text \<open>The slice \<open>commands\<close> of \<open>InstallXdebug\<close>.\<close>

definition InstallXdebug_commands :: "string list" where
  "InstallXdebug_commands =
     [''pecl list | grep xdebug'',
      ''pecl install xdebug'',
      ''docker-php-ext-enable xdebug'',
      ''echo '' @ [CHR 0x27] @ ''xdebug.start_with_request=yes'' @ [CHR 0x27]
         @ '' >> /usr/local/etc/php/php.ini'',
      ''echo '' @ [CHR 0x27] @ ''xdebug.mode=debug'' @ [CHR 0x27]
         @ '' >> /usr/local/etc/php/php.ini'',
      ''echo '' @ [CHR 0x27] @ ''xdebug.client_host=host.docker.internal'' @ [CHR 0x27]
         @ '' >> /usr/local/etc/php/php.ini'',
      ''echo '' @ [CHR 0x27] @ ''xdebug.discover_client_host=on'' @ [CHR 0x27]
         @ '' >> /usr/local/etc/php/php.ini'',
      ''echo '' @ [CHR 0x27] @ ''xdebug.start_with_request=trigger'' @ [CHR 0x27]
         @ '' >> /usr/local/etc/php/php.ini'']"

text \<open>The loop of \<open>InstallXdebug\<close>: \<open>n\<close> is \<open>len(commands)\<close>, \<open>i\<close> the index of the next command.\<close>

fun InstallXdebug_loop :: "Site \<Rightarrow> nat \<Rightarrow> nat \<Rightarrow> string list \<Rightarrow> world \<Rightarrow> (bool \<times> error option) \<times> world" where
  "InstallXdebug_loop s n i [] w = ((True, None), w)"
| "InstallXdebug_loop s n i (command # rest) w =
     (let restart = (i + 1 = n)
      in (case runCli s command restart w of
            ((out, Some err), w1) \<Rightarrow> ((False, Some err), w1)
          | ((out, None), w1) \<Rightarrow>
              if i = 0 \<and> Contains (StdOut out) ''xdebug'' then ((False, None), w1)
              else InstallXdebug_loop s n (i + 1) rest w1))"

definition InstallXdebug :: "Site \<Rightarrow> world \<Rightarrow> (bool \<times> error option) \<times> world" where
  "InstallXdebug s w =
     (if \<not> GetBool (SiteConfig s) ''xdebug'' then ((False, None), w)
      else InstallXdebug_loop s (length InstallXdebug_commands) 0 InstallXdebug_commands
             (w\<lparr>stdout := stdout w @ [Println ''Installing Xdebug...'']\<rparr>))"

section \<open>Predicates on worlds\<close>

text \<open>
  \<open>carries n c\<close>: the container carries the name \<open>n\<close>, as the adapter compares names.
  \<open>runs_as w n\<close>: a running container carries it. \<open>named w n\<close>: the containers,
  running or not, that carry it. \<open>healthy w\<close>: the
  daemon answers every call from now on. \<open>plain n\<close>: the name is not empty and neither
  begins nor ends with \<open>/\<close>. \<open>never_ok f\<close>: the endpoint answers every request, and
  never with status 200.
\<close>

definition carries :: "string \<Rightarrow> container \<Rightarrow> bool" where
  "carries containerName c = (containerName \<in> set (map (\<lambda>name. Trim name ''/'') (Names c)))"

definition runs_as :: "world \<Rightarrow> string \<Rightarrow> bool" where
  "runs_as w containerName = list_ex (\<lambda>c. Running c \<and> carries containerName c) (containers w)"



definition healthy :: "world \<Rightarrow> bool" where
  "healthy w = (\<forall>n. length (log w) \<le> n \<longrightarrow> \<not> faults w n)"

definition plain :: "string \<Rightarrow> bool" where
  "plain name = (name \<noteq> [] \<and> hd name \<noteq> CHR ''/'' \<and> last name \<noteq> CHR ''/'')"

definition never_ok :: "(nat \<Rightarrow> error + nat) \<Rightarrow> bool" where
  "never_ok f = (\<forall>n. case f n of Inl err \<Rightarrow> False | Inr StatusCode \<Rightarrow> StatusCode \<noteq> 200)"

text \<open>
  \<open>requests w w'\<close>: the requests made between the world \<open>w\<close> and the later world \<open>w'\<close>,
  each with the client that made it and its URL, in the order of the trace.
\<close>

definition requests :: "world \<Rightarrow> world \<Rightarrow> (http_client \<times> string) list" where
  "requests w w' =
     concat (map (\<lambda>e. case e of HttpGet c u \<Rightarrow> [(c, u)] | Sleep n \<Rightarrow> [])
       (drop (length (trace w)) (trace w')))"

text \<open>
  Failures of daemon calls. \<open>failures w w'\<close>: the calls that failed between the world
  \<open>w\<close> and the later world \<open>w'\<close>, each with its error, in the order of the log.
  \<open>returned absorbed w w' err\<close>: each of them is of a kind that is absorbed, or its error
  is \<open>err\<close>. \<open>step\<close> adds that the log has only grown.
\<close>

definition failed :: "error + 'a \<Rightarrow> error option" where
  "failed r = (case r of Inl err \<Rightarrow> Some err | Inr x \<Rightarrow> None)"

definition failures :: "world \<Rightarrow> world \<Rightarrow> (call \<times> error) list" where
  "failures w w' =
     concat (map (\<lambda>entry. case snd entry of None \<Rightarrow> [] | Some err \<Rightarrow> [(fst entry, err)])
       (drop (length (log w)) (log w')))"

definition returned :: "(call \<Rightarrow> bool) \<Rightarrow> world \<Rightarrow> world \<Rightarrow> error option \<Rightarrow> bool" where
  "returned absorbed w w' err =
     list_all (\<lambda>failure. absorbed (fst failure) \<or> err = Some (snd failure)) (failures w w')"

definition is_listing :: "call \<Rightarrow> bool" where
  "is_listing c = (c = Call_ContainerList ContainerListOptions_zero)"

definition is_listing_or_logs :: "call \<Rightarrow> bool" where
  "is_listing_or_logs c =
     (case c of Call_ContainerLogs cid \<Rightarrow> True
      | Call_ContainerList options \<Rightarrow> options = ContainerListOptions_zero
      | _ \<Rightarrow> False)"

definition is_listing_or_inspect :: "call \<Rightarrow> bool" where
  "is_listing_or_inspect c =
     (case c of Call_ContainerInspect cid \<Rightarrow> True
      | Call_ContainerList options \<Rightarrow> options = ContainerListOptions_zero
      | _ \<Rightarrow> False)"

definition nothing :: "call \<Rightarrow> bool" where
  "nothing c = False"

text \<open>\<open>answered w\<close>: the daemon answered the last call made, without an error.\<close>

definition answered :: "world \<Rightarrow> bool" where
  "answered w = (log w \<noteq> [] \<and> snd (last (log w)) = None)"

definition step :: "(call \<Rightarrow> bool) \<Rightarrow> world \<Rightarrow> world \<Rightarrow> error option \<Rightarrow> bool" where
  "step absorbed w w' err = ((\<exists>es. log w' = log w @ es) \<and> returned absorbed w w' err)"

text \<open>
  \<open>fresh_ids w\<close>: the daemon hands out no identifier twice, and none that an exec session
  has. \<open>serving w n cid\<close>: the daemon answers every call from now on and hands out fresh
  identifiers, the adapter finds the running container \<open>cid\<close> under the name \<open>n\<close>, and
  the daemon finds that container under its identifier.
\<close>

definition fresh_ids :: "world \<Rightarrow> bool" where
  "fresh_ids w =
     (inj (fresh w) \<and> (\<forall>e \<in> set (execs w). \<forall>k. created w \<le> k \<longrightarrow> ExecID e \<noteq> fresh w k))"

definition serving :: "world \<Rightarrow> string \<Rightarrow> string \<Rightarrow> bool" where
  "serving w containerName cid =
     (healthy w \<and> fresh_ids w
      \<and> IsContainerRunning_loop containerName (filter Running (containers w)) = (cid, True)
      \<and> (case find_container w cid of None \<Rightarrow> False | Some c \<Rightarrow> Running c))"

text \<open>
  \<open>wrapped\<close>: a command as \<open>ContainerExec\<close> hands it to the daemon. \<open>said\<close>: what the
  command writes to its standard output. \<open>readable\<close>: the streams of the commands end
  without an error. \<open>exec_calls\<close>, \<open>restart_calls\<close>: the daemon calls of one
  \<open>ContainerExec\<close> and of one \<open>ContainerRestart\<close> against a running container.
  \<open>broken_calls\<close>: the daemon calls of a \<open>ContainerExec\<close> whose stream ends in an error,
  which is not followed by the inspection of the session.
\<close>

definition wrapped :: "string \<Rightarrow> string list" where
  "wrapped command = [''sh'', ''-c'', command]"

definition said :: "world \<Rightarrow> string \<Rightarrow> string \<Rightarrow> string" where
  "said w cid command = fst (StdCopy_frames (frames (shell w cid (wrapped command))) ([], []))"

definition readable :: "world \<Rightarrow> string \<Rightarrow> string list \<Rightarrow> bool" where
  "readable w cid commands =
     list_all (\<lambda>command. read_error (shell w cid (wrapped command)) = None) commands"

definition exec_calls :: "string \<Rightarrow> string \<Rightarrow> string \<Rightarrow> call list" where
  "exec_calls cid eid command =
     [Call_ContainerList ContainerListOptions_zero,
      Call_ContainerExecCreate cid (wrapped command),
      Call_ContainerExecAttach eid, Call_ContainerExecInspect eid]"

definition restart_calls :: "string \<Rightarrow> call list" where
  "restart_calls cid =
     [Call_ContainerList ContainerListOptions_zero, Call_ContainerStop cid, Call_ContainerStart cid]"

definition broken_calls :: "string \<Rightarrow> string \<Rightarrow> string \<Rightarrow> call list" where
  "broken_calls cid eid command =
     [Call_ContainerList ContainerListOptions_zero,
      Call_ContainerExecCreate cid (wrapped command),
      Call_ContainerExecAttach eid]"

text \<open>The calls of the commands, the session of the \<open>j\<close>-th taking the \<open>j\<close>-th identifier from \<open>k\<close> on.\<close>

fun commands_calls :: "(nat \<Rightarrow> string) \<Rightarrow> string \<Rightarrow> nat \<Rightarrow> string list \<Rightarrow> call list" where
  "commands_calls ids cid k [] = []"
| "commands_calls ids cid k (command # rest) =
     exec_calls cid (ids k) command @ commands_calls ids cid (Suc k) rest"

definition commands_run :: "world \<Rightarrow> string list list" where
  "commands_run w = map (\<lambda>e. ExecConfig_Cmd (Session e)) (execs w)"

text \<open>A line of the shape of the last five commands of \<open>InstallXdebug\<close>.\<close>

definition ini_append :: "string \<Rightarrow> string" where
  "ini_append line = ''echo '' @ [CHR 0x27] @ line @ [CHR 0x27] @ '' >> /usr/local/etc/php/php.ini''"

text \<open>The creations of containers the daemon was asked for, in the order of the log.\<close>

definition creations :: "world \<Rightarrow> call list" where
  "creations w =
     filter (\<lambda>c. case c of Call_ContainerCreate n i \<Rightarrow> True | _ \<Rightarrow> False) (map fst (log w))"

section \<open>Example worlds\<close>

text \<open>
  A world to evaluate the code in: a daemon with no container that answers every call
  and numbers its identifiers, no file, an endpoint that answers 503, and a site
  \<open>demo\<close> whose own configuration asks for PHP 8.0 where the global one says 7.4.
\<close>

fun joined :: "string list \<Rightarrow> string" where
  "joined [] = []"
| "joined [p] = p"
| "joined (p # q # ps) = p @ ''/'' @ joined (q # ps)"

definition numbered :: "nat \<Rightarrow> string" where
  "numbered n = CHR ''c'' # replicate n CHR ''+''"

definition quiet :: world where
  "quiet =
     \<lparr>containers = [], execs = [], networks = [], log = [], created = 0,
      faults = (\<lambda>n. False), fresh = numbered,
      program = (\<lambda>c. \<lparr>exit_status = 0, log_text = ''plugins.json'', log_error = None\<rparr>),
      shell = (\<lambda>cid cmd. \<lparr>frames = [], read_error = None, exit_code = 0\<rparr>),
      stdout = [], files = (\<lambda>p. Inl (OSError ''no such file or directory'')),
      Getwd = Inr ''/home/dev/demo'', MkdirAll = (\<lambda>p. None),
      endpoint = (\<lambda>client n. Inr 503), trace = [],
      NewPort = (\<lambda>proto port. Inr (port @ ''/'' @ proto)), Join = joined,
      Unmarshal = (\<lambda>text. Inl (JSONError ''unexpected end of JSON input'')),
      GOOS = ''linux'', NewClientWithOpts = None, Run = (\<lambda>command. None)\<rparr>"

definition settings :: "string \<Rightarrow> bool \<Rightarrow> viper" where
  "settings php xdebug =
     \<lparr>GetString = (\<lambda>k. if k = ''php'' then php else if k = ''type'' then ''site'' else []),
      GetBool = (\<lambda>k. k = ''xdebug'' \<and> xdebug),
      GetStringSlice = (\<lambda>k. [])\<rparr>"

definition site_named :: "string \<Rightarrow> viper \<Rightarrow> viper \<Rightarrow> Site" where
  "site_named name dynamicConfig siteConfig =
     \<lparr>StaticConfig =
        \<lparr>AppDirectory = ''/home/dev/.config/kana'', AppDomain = ''sites.kana.li'',
         RootCert = ''kana.root.pem'',
         SiteDirectory = ''/home/dev/.config/kana/sites/'' @ name, SiteName = name,
         WorkingDirectory = ''/home/dev/demo''\<rparr>,
      DynamicConfig = dynamicConfig, SiteConfig = siteConfig,
      rootCert = ''/home/dev/.config/kana/certs/kana.root.pem'',
      siteDomain = name @ ''.sites.kana.li'',
      secureURL = ''https://'' @ name @ ''.sites.kana.li/'',
      url = ''http://'' @ name @ ''.sites.kana.li/''\<rparr>"

definition demo :: Site where
  "demo = site_named ''demo'' (settings ''7.4'' False) (settings ''8.0'' True)"

definition a_container :: "string \<Rightarrow> string \<Rightarrow> bool \<Rightarrow> string \<Rightarrow> container" where
  "a_container cid name running site =
     \<lparr>ID = cid, Names = [CHR ''/'' # name], Running = running,
      Config = \<lparr>Config_Tty = True, Config_Image = ''wordpress:php8.0'', Config_ExposedPorts = [],
                Config_Cmd = [], Config_Hostname = name, Config_Env = [],
                Config_Labels = [''kana.site'' \<mapsto> site]\<rparr>,
      Host = HostConfig_zero, Networking = NetworkingConfig_zero\<rparr>"

text \<open>The site \<open>demo\<close> with its database up and its app container stopped; and with both up.\<close>

definition half_up :: world where
  "half_up =
     quiet\<lparr>containers := [a_container ''db1'' ''kana_demo_database'' True ''demo'',
                           a_container ''wp1'' ''kana_demo_wordpress'' False ''demo'']\<rparr>"

definition up :: world where
  "up =
     quiet\<lparr>containers := [a_container ''db1'' ''kana_demo_database'' True ''demo'',
                           a_container ''wp1'' ''kana_demo_wordpress'' True ''demo'']\<rparr>"

definition a_spec :: "string \<Rightarrow> ContainerConfig" where
  "a_spec name =
     \<lparr>ContainerConfig.Name = name, Image = ''mariadb'', Ports = [], HostName = name,
      NetworkName = ''kana'', Volumes = [], Command = [], Env = [],
      Labels = [''kana.site'' \<mapsto> ''demo'']\<rparr>"

text \<open>The parameters, for the example worlds: the image is there, the site is a plain one.\<close>

definition plain_site :: externals where
  "plain_site =
     \<lparr>EnsureImage = (\<lambda>image w. (None, w)),
      GetRunningConfig = (\<lambda>s w. (\<lparr>Type = ''site'', Local = False, Xdebug = False\<rparr>, w)),
      IsLocalSite = (\<lambda>s w. False)\<rparr>"

text \<open>The site with an empty name.\<close>

definition nameless :: Site where
  "nameless = site_named [] (settings ''7.4'' False) (settings ''7.4'' False)"

text \<open>A world where the root certificate can be read and the endpoint answers 503 for ever.\<close>

definition down :: world where
  "down = quiet\<lparr>files := (\<lambda>p. if p = ''/home/dev/.config/kana/certs/kana.root.pem''
                               then Inr ''-----BEGIN CERTIFICATE-----''
                               else Inl (OSError ''no such file or directory''))\<rparr>"

text \<open>A world where the plugin listing parses to six entries.\<close>

definition plugins_listed :: "PluginInfo list" where
  "plugins_listed =
     [\<lparr>Name = ''query-monitor'', Status = ''active'', Update = ''none'', Version = ''3.9''\<rparr>,
      \<lparr>Name = ''akismet'', Status = ''inactive'', Update = ''none'', Version = ''5.0''\<rparr>,
      \<lparr>Name = ''object-cache.php'', Status = ''dropin'', Update = ''none'', Version = []\<rparr>,
      \<lparr>Name = ''demo'', Status = ''active'', Update = ''none'', Version = ''0.1''\<rparr>,
      \<lparr>Name = ''hello'', Status = ''inactive'', Update = ''none'', Version = ''1.7''\<rparr>,
      \<lparr>Name = ''debug-bar'', Status = ''inactive'', Update = ''available'', Version = ''1.0''\<rparr>]"

definition listing :: world where
  "listing = up\<lparr>Unmarshal := (\<lambda>text. if text = ''plugins.json'' then Inr plugins_listed
                                        else Inl (JSONError ''invalid character''))\<rparr>"

text \<open>A daemon that fails its sixth call, and no other.\<close>

definition unremovable :: world where
  "unremovable = quiet\<lparr>faults := (\<lambda>n. n = 5)\<rparr>"

text \<open>The site up, with a daemon that fails its first call, or its second.\<close>

definition deaf :: world where
  "deaf = up\<lparr>faults := (\<lambda>n. n = 0)\<rparr>"

definition stuck :: world where
  "stuck = up\<lparr>faults := (\<lambda>n. n = 1)\<rparr>"

text \<open>The site up, with the extension there: the check prints its line.\<close>

definition installed :: world where
  "installed =
     up\<lparr>shell := (\<lambda>cid cmd. \<lparr>frames = [Stdout ''xdebug   3.1.5   stable''], read_error = None,
                                exit_code = 0\<rparr>)\<rparr>"

text \<open>The site up, with an install whose output stream ends in an error.\<close>

definition broken :: world where
  "broken =
     up\<lparr>shell := (\<lambda>cid cmd. if cmd = [''sh'', ''-c'', ''pecl install xdebug'']
                              then \<lparr>frames = [Stdout ''downloading xdebug''],
                                    read_error = Some (StreamError ''unexpected EOF''), exit_code = 0\<rparr>
                              else \<lparr>frames = [], read_error = None, exit_code = 0\<rparr>)\<rparr>"

text \<open>A daemon that fails its fifth call, and no other.\<close>

definition logless :: world where
  "logless = quiet\<lparr>faults := (\<lambda>n. n = 4)\<rparr>"

text \<open>
  The site up on a Mac: with a daemon that fails its first call and answers from then on,
  and with a daemon that never answers.
\<close>

definition mac :: world where
  "mac = deaf\<lparr>GOOS := ''darwin''\<rparr>"

definition mac_down :: world where
  "mac_down = up\<lparr>GOOS := ''darwin'', faults := (\<lambda>n. True)\<rparr>"

section \<open>Properties of the adapter\<close>

lemmas client_defs =
  client_ContainerList_def client_ContainerCreate_def client_ContainerStart_def
  client_ContainerStop_def client_ContainerRemove_def client_ContainerWait_def
  client_ContainerLogs_def client_ContainerInspect_def client_ContainerExecCreate_def
  client_ContainerExecAttach_def client_ContainerExecInspect_def client_NetworkList_def
  client_NetworkCreate_def client_NetworkRemove_def daemon_call_def logged_def new_id_def
  find_container_def find_exec_def set_running_def stored_name_def listed_def label_match_def
  ContainerListOptions_zero_def HostConfig_zero_def NetworkingConfig_zero_def
  NetworkResource_zero_def ExecResult_zero_def StdCopy_def

lemmas adapter_defs =
  ListContainers_def IsContainerRunning_def ContainerGetMounts_def getNetworkConfig_def
  ContainerRun_def ContainerWait_def ContainerLog_def ContainerRunAndClean_def
  ContainerStop_def ContainerRestart_def ContainerExec_def findNetworkByName_def
  findNetworkById_def EnsureNetwork_def RemoveNetwork_def Trim_def Let_def

lemmas site_defs =
  IsSiteRunning_def getLocalAppDir_def getMounts_def wordPressContainers_def
  RunWPCli_container_def RunWPCli_def GetInstalledWordPressPlugins_def VerifySite_def
  VerifySite_client_def runCli_def InstallXdebug_def

lemmas example_defs =
  quiet_def numbered_def settings_def site_named_def demo_def nameless_def a_container_def
  half_up_def up_def a_spec_def plain_site_def

lemma logged_simps [simp]:
  "containers (logged c e w) = containers w" "execs (logged c e w) = execs w"
  "networks (logged c e w) = networks w" "log (logged c e w) = log w @ [(c, e)]"
  "created (logged c e w) = created w" "faults (logged c e w) = faults w"
  "fresh (logged c e w) = fresh w" "program (logged c e w) = program w"
  "shell (logged c e w) = shell w" "stdout (logged c e w) = stdout w"
  "files (logged c e w) = files w" "Getwd (logged c e w) = Getwd w"
  "MkdirAll (logged c e w) = MkdirAll w" "endpoint (logged c e w) = endpoint w"
  "trace (logged c e w) = trace w" "NewPort (logged c e w) = NewPort w"
  "Join (logged c e w) = Join w" "Unmarshal (logged c e w) = Unmarshal w"
  by (simp_all add: logged_def)

lemma set_running_simps [simp]:
  "log (set_running cid b w) = log w" "faults (set_running cid b w) = faults w"
  "execs (set_running cid b w) = execs w" "created (set_running cid b w) = created w"
  "fresh (set_running cid b w) = fresh w" "shell (set_running cid b w) = shell w"
  "program (set_running cid b w) = program w" "stdout (set_running cid b w) = stdout w"
  "containers (set_running cid b w) =
     map (\<lambda>c. if ID c = cid then c\<lparr>Running := b\<rparr> else c) (containers w)"
  by (simp_all add: set_running_def)


lemma healthy_later:
  "healthy w \<Longrightarrow> faults w' = faults w \<Longrightarrow> length (log w) \<le> length (log w') \<Longrightarrow> healthy w'"
  by (simp add: healthy_def)

subsection \<open>Names\<close>



text \<open>Every container name the site code derives is plain, whatever the site is called.\<close>

lemma site_names_plain:
  "plain (''kana_'' @ site @ ''_database'')" "plain (''kana_'' @ site @ ''_wordpress'')"
  "plain (''kana_'' @ site @ ''_wordpress_cli'')"
  by (simp_all add: plain_def)

subsection \<open>Listing and IsContainerRunning\<close>

lemma listed_zero [simp]: "listed ContainerListOptions_zero = Running"
  by (rule ext) (simp add: listed_def ContainerListOptions_zero_def)

lemma client_ContainerList_zero:
  "client_ContainerList ContainerListOptions_zero w =
     (if faults w (length (log w))
      then (Inl (DaemonFault (length (log w))),
            logged (Call_ContainerList ContainerListOptions_zero)
              (Some (DaemonFault (length (log w)))) w)
      else (Inr (filter Running (containers w)),
            logged (Call_ContainerList ContainerListOptions_zero) None w))"
proof -
  have "Filters ContainerListOptions_zero = []"
    by (simp add: ContainerListOptions_zero_def)
  then show ?thesis
    by (simp add: client_ContainerList_def daemon_call_def)
qed

lemma IsContainerRunning_eq:
  "IsContainerRunning containerName w =
     (if faults w (length (log w))
      then (([], False),
            logged (Call_ContainerList ContainerListOptions_zero)
              (Some (DaemonFault (length (log w)))) w)
      else (IsContainerRunning_loop containerName (filter Running (containers w)),
            logged (Call_ContainerList ContainerListOptions_zero) None w))"
  by (simp add: IsContainerRunning_def client_ContainerList_zero)


lemma IsContainerRunning_loop_none:
  "\<not> list_ex (carries containerName) cs \<Longrightarrow> IsContainerRunning_loop containerName cs = ([], False)"
  by (induction cs) (auto simp: carries_def)


lemma runs_as_carries: "runs_as w n = list_ex (carries n) (filter Running (containers w))"
  by (auto simp: runs_as_def list_ex_iff)

lemma IsContainerRunning_not_running:
  assumes "\<not> runs_as w containerName"
  shows "fst (IsContainerRunning containerName w) = ([], False)"
proof -
  from assms have "IsContainerRunning_loop containerName (filter Running (containers w)) = ([], False)"
    by (intro IsContainerRunning_loop_none) (simp add: runs_as_carries)
  then show ?thesis
    by (simp add: IsContainerRunning_eq)
qed

lemma IsContainerRunning_snd [simp]:
  "containers (snd (IsContainerRunning n w)) = containers w"
  "created (snd (IsContainerRunning n w)) = created w"
  "fresh (snd (IsContainerRunning n w)) = fresh w"
  "faults (snd (IsContainerRunning n w)) = faults w"
  "stdout (snd (IsContainerRunning n w)) = stdout w"
  "execs (snd (IsContainerRunning n w)) = execs w"
  "length (log (snd (IsContainerRunning n w))) = Suc (length (log w))"
  "map fst (log (snd (IsContainerRunning n w))) =
     map fst (log w) @ [Call_ContainerList ContainerListOptions_zero]"
  by (simp_all add: IsContainerRunning_eq)

subsection \<open>ContainerExec on a container that is not running\<close>

text \<open>
  C8. For every container name that no running container carries and every command,
  \<open>ContainerExec\<close> returns the empty result (empty stdout, empty stderr, exit code zero)
  and no error. It creates no exec session: the one daemon call it makes is the listing
  of the running containers, whether that call fails or not.
\<close>

theorem ContainerExec_not_running:
  assumes "\<not> runs_as w containerName"
  shows "fst (ContainerExec containerName command w) =
           (\<lparr>StdOut = [], StdErr = [], ExitCode = 0\<rparr>, None)
         \<and> execs (snd (ContainerExec containerName command w)) = execs w
         \<and> containers (snd (ContainerExec containerName command w)) = containers w
         \<and> map fst (log (snd (ContainerExec containerName command w))) =
             map fst (log w) @ [Call_ContainerList ContainerListOptions_zero]"
proof -
  obtain w1 where r: "IsContainerRunning containerName w = (([], False), w1)"
    using IsContainerRunning_not_running [OF assms]
    by (cases "IsContainerRunning containerName w") auto
  then have "ContainerExec containerName command w = ((ExecResult_zero, None), w1)"
    by (simp add: ContainerExec_def)
  moreover have "w1 = snd (IsContainerRunning containerName w)"
    using r by simp
  ultimately show ?thesis
    by (simp add: ExecResult_zero_def)
qed

theorem ContainerExec_not_running_witness:
  "\<not> runs_as half_up ''kana_demo_wordpress''
   \<and> fst (ContainerExec ''kana_demo_wordpress'' [''pecl list | grep xdebug''] half_up) =
       (\<lparr>StdOut = [], StdErr = [], ExitCode = 0\<rparr>, None)
   \<and> execs (snd (ContainerExec ''kana_demo_wordpress'' [''pecl list | grep xdebug''] half_up)) = []
   \<and> map fst (log (snd (ContainerExec ''kana_demo_wordpress'' [''pecl list | grep xdebug''] half_up))) =
       [Call_ContainerList ContainerListOptions_zero]"
proof -
  have h: "\<not> runs_as half_up ''kana_demo_wordpress''"
    by (simp add: runs_as_def carries_def half_up_def a_container_def Trim_def)
  show ?thesis
    using h ContainerExec_not_running [OF h, of "[''pecl list | grep xdebug'']"]
    by (simp add: half_up_def quiet_def)
qed

subsection \<open>ContainerRun, twice\<close>








subsection \<open>ContainerRunAndClean\<close>








lemma loop_member:
  "IsContainerRunning_loop name cs = (cid, True) \<Longrightarrow> \<exists>c \<in> set cs. carries name c \<and> ID c = cid"
  by (induction cs) (auto simp: carries_def split: if_splits)

lemma carries_Running [simp]: "carries name (x\<lparr>Running := b\<rparr>) = carries name x"
  by (simp add: carries_def)




lemma ContainerLog_snd [simp]:
  "containers (snd (ContainerLog cid w)) = containers w"
  "faults (snd (ContainerLog cid w)) = faults w"
  "stdout (snd (ContainerLog cid w)) = stdout w"
  "map fst (log (snd (ContainerLog cid w))) = map fst (log w) @ [Call_ContainerLogs cid]"
  "length (log (snd (ContainerLog cid w))) = Suc (length (log w))"
  by (auto simp: ContainerLog_def client_ContainerLogs_def daemon_call_def
      split: if_splits option.splits)






section \<open>Failures of daemon calls\<close>

lemma failed_simps [simp]: "failed (Inl e) = Some e" "failed (Inr x) = None"
  by (simp_all add: failed_def)

lemma step_refl [simp]: "step a w w err"
  by (simp add: step_def returned_def failures_def)

lemma step_trans:
  assumes "step a w w1 None" and "step a w1 w2 err"
  shows "step a w w2 err"
proof -
  from assms obtain es es' where e: "log w1 = log w @ es" "log w2 = log w1 @ es'"
    by (auto simp: step_def)
  then have "failures w w2 = failures w w1 @ failures w1 w2"
    by (simp add: failures_def)
  with assms e show ?thesis
    by (auto simp: step_def returned_def list_all_iff)
qed

lemma step_call:
  "log w' = log w @ [(c, e)] \<Longrightarrow> step nothing w w' e"
  by (cases e) (simp_all add: step_def returned_def failures_def)

lemma step_absorb:
  "log w' = log w @ [(c, e)] \<Longrightarrow> a c \<Longrightarrow> step a w w' err"
  by (cases e) (simp_all add: step_def returned_def failures_def)

lemma step_weaken: "step nothing w w' err \<Longrightarrow> step a w w' err"
  by (auto simp: step_def returned_def nothing_def list_all_iff)

lemma step_stdout [simp]: "step a w (w'\<lparr>stdout := out\<rparr>) err = step a w w' err"
  by (simp add: step_def returned_def failures_def)

lemma daemon_call_log:
  assumes "\<And>w. log (snd (serve w)) = log w"
  shows "daemon_call c serve w = (r, w') \<Longrightarrow> log w' = log w @ [(c, failed r)]"
  using assms [of w]
  by (auto simp: daemon_call_def split: if_splits prod.splits sum.splits)

lemma client_logs:
  "client_ContainerList options w = (rl, w') \<Longrightarrow> log w' = log w @ [(Call_ContainerList options, failed rl)]"
  "client_ContainerCreate c h n name w = (rs, w') \<Longrightarrow> log w' = log w @ [(Call_ContainerCreate name (Config_Image c), failed rs)]"
  "client_ContainerStart cid w = (ru, w') \<Longrightarrow> log w' = log w @ [(Call_ContainerStart cid, failed ru)]"
  "client_ContainerStop cid w = (ru, w') \<Longrightarrow> log w' = log w @ [(Call_ContainerStop cid, failed ru)]"
  "client_ContainerRemove cid w = (ru, w') \<Longrightarrow> log w' = log w @ [(Call_ContainerRemove cid, failed ru)]"
  "client_ContainerWait cid w = (ri, w') \<Longrightarrow> log w' = log w @ [(Call_ContainerWait cid, failed ri)]"
  "client_ContainerLogs cid w = (rr, w') \<Longrightarrow> log w' = log w @ [(Call_ContainerLogs cid, failed rr)]"
  "client_ContainerInspect cid w = (rm, w') \<Longrightarrow> log w' = log w @ [(Call_ContainerInspect cid, failed rm)]"
  "client_ContainerExecCreate cid config w = (rs, w') \<Longrightarrow>
     log w' = log w @ [(Call_ContainerExecCreate cid (ExecConfig_Cmd config), failed rs)]"
  "client_ContainerExecAttach eid w = (ra, w') \<Longrightarrow> log w' = log w @ [(Call_ContainerExecAttach eid, failed ra)]"
  "client_ContainerExecInspect eid w = (ri, w') \<Longrightarrow> log w' = log w @ [(Call_ContainerExecInspect eid, failed ri)]"
  "client_NetworkList w = (rn, w') \<Longrightarrow> log w' = log w @ [(Call_NetworkList, failed rn)]"
  "client_NetworkCreate name driver w = (rs, w') \<Longrightarrow> log w' = log w @ [(Call_NetworkCreate name, failed rs)]"
  "client_NetworkRemove nid w = (ru, w') \<Longrightarrow> log w' = log w @ [(Call_NetworkRemove nid, failed ru)]"
  unfolding client_ContainerList_def client_ContainerCreate_def client_ContainerStart_def
    client_ContainerStop_def client_ContainerRemove_def client_ContainerWait_def
    client_ContainerLogs_def client_ContainerInspect_def client_ContainerExecCreate_def
    client_ContainerExecAttach_def client_ContainerExecInspect_def client_NetworkList_def
    client_NetworkCreate_def client_NetworkRemove_def
  by (erule daemon_call_log [rotated], simp add: set_running_def split: list.splits option.splits)+

lemmas client_steps = client_logs [THEN step_call, THEN step_weaken]

lemma IsContainerRunning_step:
  "IsContainerRunning n w = (r, w') \<Longrightarrow> a (Call_ContainerList ContainerListOptions_zero) \<Longrightarrow>
   step a w w' err"
  by (auto simp: IsContainerRunning_def split: prod.splits sum.splits
      dest!: client_logs(1) intro: step_absorb)

lemma is_listing_simps [simp]:
  "is_listing (Call_ContainerList ContainerListOptions_zero)"
  "is_listing_or_logs (Call_ContainerList ContainerListOptions_zero)"
  "is_listing_or_logs (Call_ContainerLogs cid)"
  by (simp_all add: is_listing_def is_listing_or_logs_def)

lemma step_ListContainers:
  "ListContainers site w = ((ids, err), w') \<Longrightarrow> step nothing w w' err"
  by (auto simp: ListContainers_def Let_def split: prod.splits sum.splits dest!: client_steps)

lemma step_ContainerWait:
  "ContainerWait cid w = ((st, err), w') \<Longrightarrow> step a w w' err"
  by (auto simp: ContainerWait_def split: prod.splits sum.splits dest!: client_steps)

lemma step_None: "step a w w' None \<Longrightarrow> step a w w' err"
  by (auto simp: step_def returned_def list_all_iff)

lemma step_ContainerLog:
  "ContainerLog cid w = ((text, err), w') \<Longrightarrow> step a w w' err"
  by (auto simp: ContainerLog_def split: prod.splits sum.splits option.splits if_splits
      dest!: client_steps [where a = a] intro: step_None)

lemma step_ContainerStop:
  "ContainerStop n w = ((b, err), w') \<Longrightarrow> step is_listing w w' err"
  by (auto simp: ContainerStop_def split: prod.splits sum.splits if_splits
      dest!: client_steps [where a = is_listing] IsContainerRunning_step [where a = is_listing and err = None])
    (blast intro: step_trans)+

lemma step_ContainerRestart:
  "ContainerRestart n w = ((b, err), w') \<Longrightarrow> step is_listing w w' err"
  by (auto simp: ContainerRestart_def split: prod.splits sum.splits if_splits
      dest!: client_steps [where a = is_listing] IsContainerRunning_step [where a = is_listing and err = None])
    (blast intro: step_trans)+

lemma step_ContainerExec:
  "ContainerExec n command w = ((result, err), w') \<Longrightarrow> step is_listing w w' err"
  by (auto simp: ContainerExec_def Let_def split: prod.splits sum.splits if_splits option.splits
      dest!: client_steps [where a = is_listing] IsContainerRunning_step [where a = is_listing and err = None])
    (blast intro: step_trans step_None)+

lemma step_ContainerRun_any:
  assumes "a (Call_ContainerList ContainerListOptions_zero)"
  shows "ContainerRun config w = ((cid, err), w') \<Longrightarrow> step a w w' err"
  using assms
  by (auto simp: ContainerRun_def Let_def split: prod.splits sum.splits if_splits
      dest!: client_steps [where a = a] IsContainerRunning_step [where a = a and err = None])
    (blast intro: step_trans step_None)+

lemmas step_ContainerRun = step_ContainerRun_any [of is_listing, OF is_listing_simps(1)]

lemmas step_ContainerRun_logs = step_ContainerRun_any [of is_listing_or_logs, OF is_listing_simps(2)]

lemma step_ContainerLog_absorbed:
  "ContainerLog cid w = (r, w') \<Longrightarrow> step is_listing_or_logs w w' err"
  by (auto simp: ContainerLog_def split: prod.splits sum.splits option.splits if_splits
      dest!: client_logs intro: step_absorb)

lemma step_ContainerRunAndClean:
  "ContainerRunAndClean config w = ((st, body, err), w') \<Longrightarrow> step is_listing_or_logs w w' err"
  by (auto simp: ContainerRunAndClean_def split: prod.splits sum.splits option.splits
      dest!: step_ContainerRun_logs
        step_ContainerWait [where a = is_listing_or_logs]
        step_ContainerLog_absorbed [where err = None]
        client_steps [where a = is_listing_or_logs])
    (blast intro: step_trans step_None)+

lemma step_findNetworkByName:
  "findNetworkByName name w = ((found, n, err), w') \<Longrightarrow> step nothing w w' err"
  by (auto simp: findNetworkByName_def split: prod.splits sum.splits option.splits
      dest!: client_steps [where a = nothing])

lemma step_findNetworkById:
  "findNetworkById nid w = ((found, n, err), w') \<Longrightarrow> step nothing w w' err"
  by (auto simp: findNetworkById_def split: prod.splits sum.splits option.splits
      dest!: client_steps [where a = nothing])

lemma step_EnsureNetwork:
  "EnsureNetwork name w = ((made, n, err), w') \<Longrightarrow> step nothing w w' err"
  by (auto simp: EnsureNetwork_def split: prod.splits sum.splits option.splits if_splits
      dest!: step_findNetworkByName step_findNetworkById client_steps [where a = nothing])
    (blast intro: step_trans step_None)+

lemma step_RemoveNetwork:
  "RemoveNetwork name w = ((removed, err), w') \<Longrightarrow> step nothing w w' err"
  by (auto simp: RemoveNetwork_def split: prod.splits sum.splits option.splits if_splits
      dest!: step_findNetworkByName client_steps [where a = nothing])
    (blast intro: step_trans step_None)+

lemma step_returned: "step a w w' err \<Longrightarrow> returned a w w' err"
  by (simp add: step_def)

declare ensureDockerIsAvailable_loop.simps [simp del]

lemma is_listing_or_inspect_simps [simp]:
  "is_listing_or_inspect (Call_ContainerList ContainerListOptions_zero)"
  "is_listing_or_inspect (Call_ContainerInspect cid)"
  by (simp_all add: is_listing_or_inspect_def)

lemma step_trace [simp]: "step a w (w'\<lparr>trace := t\<rparr>) err = step a w w' err"
  "step a (w\<lparr>trace := t\<rparr>) w' err = step a w w' err"
  "step a (w\<lparr>stdout := out\<rparr>) w' err = step a w w' err"
  by (simp_all add: step_def returned_def failures_def)

lemma step_IsContainerRunning:
  "IsContainerRunning n w = (r, w') \<Longrightarrow> step is_listing w w' None"
  by (rule IsContainerRunning_step) simp_all

lemma step_ContainerGetMounts:
  "ContainerGetMounts n w = (mounts, w') \<Longrightarrow> step is_listing_or_inspect w w' None"
  by (auto simp: ContainerGetMounts_def split: prod.splits sum.splits if_splits
      dest!: IsContainerRunning_step [where a = is_listing_or_inspect and err = None]
        client_logs(8))
    (blast intro: step_trans step_absorb is_listing_or_inspect_simps)+

lemma ContainerGetMounts_failed:
  "failures w (snd (ContainerGetMounts n w)) \<noteq> [] \<Longrightarrow> fst (ContainerGetMounts n w) = []"
  by (auto simp: ContainerGetMounts_def IsContainerRunning_def failures_def
      split: prod.splits sum.splits if_splits dest!: client_logs(1,8))

text \<open>The counter of \<open>ensureDockerIsAvailable\<close> from 0 to 11.\<close>

lemma retries_facts:
  assumes "k \<le> 11"
  shows "sint (of_nat k :: 64 word) \<le> 12" and "((of_nat k :: 64 word) + 1 = 12) = (k = 11)"
proof -
  from assms have "k \<in> {0, 1, 2, 3, 4, 5, 6, 7, 8, 9, 10, 11}"
    by simp presburger
  then show "sint (of_nat k :: 64 word) \<le> 12" and "((of_nat k :: 64 word) + 1 = 12) = (k = 11)"
    by auto
qed

lemma answered_simps [simp]:
  "answered (w\<lparr>stdout := out\<rparr>) = answered w"
  "answered (w\<lparr>trace := t\<rparr>) = answered w"
  by (simp_all add: answered_def)

lemma answered_call:
  "log w' = log w @ [(c, e)] \<Longrightarrow> answered w' = (e = None)"
  by (simp add: answered_def)

lemma step_listing:
  "client_ContainerList ContainerListOptions_zero w = (r, w') \<Longrightarrow> step is_listing w w' err"
  by (drule client_logs(1)) (erule step_absorb, simp add: is_listing_def)


lemma ensureDockerIsAvailable_loop_step:
  "step is_listing w (snd (ensureDockerIsAvailable_loop retries e w))
     (fst (ensureDockerIsAvailable_loop retries e w))"
proof (induction retries e w rule: ensureDockerIsAvailable_loop.induct)
  case (1 retries err w)
  show ?case
  proof (cases "sint retries \<le> 12 \<and> retries + 1 \<noteq> 12")
    case False
    then show ?thesis
      by (subst (1 2) ensureDockerIsAvailable_loop.simps) auto
  next
    case True
    obtain r w1 where c: "client_ContainerList ContainerListOptions_zero (time_Sleep 5 w) = (r, w1)"
      by (cases "client_ContainerList ContainerListOptions_zero (time_Sleep 5 w)") auto
    from step_listing [OF c] have s: "step is_listing w w1 err'" for err'
      by (simp add: time_Sleep_def)
    show ?thesis
    proof (cases r)
      case (Inr cs)
      with True c s show ?thesis
        by (subst (1 2) ensureDockerIsAvailable_loop.simps) simp
    next
      case (Inl err')
      from True have t: "sint retries \<le> 12" "retries + 1 \<noteq> 12"
        by simp_all
      from "1.IH" [OF t c [symmetric] Inl]
      have "step is_listing w1 (snd (ensureDockerIsAvailable_loop (retries + 1) (Some err') w1))
              (fst (ensureDockerIsAvailable_loop (retries + 1) (Some err') w1))" .
      with s [of None] have "step is_listing w (snd (ensureDockerIsAvailable_loop (retries + 1) (Some err') w1))
              (fst (ensureDockerIsAvailable_loop (retries + 1) (Some err') w1))"
        by (rule step_trans)
      with True c Inl show ?thesis
        by (subst (1 2) ensureDockerIsAvailable_loop.simps) simp
    qed
  qed
qed

text \<open>
  The loop of \<open>ensureDockerIsAvailable\<close>, entered after a failed call with the counter at
  most 11: it returns no error exactly when the last listing was answered, and its own
  error otherwise.
\<close>

lemma ensureDockerIsAvailable_loop_answered:
  assumes "k \<le> 11" and "\<not> answered w"
  shows "(fst (ensureDockerIsAvailable_loop (of_nat (11 - k)) e w) = None) =
           answered (snd (ensureDockerIsAvailable_loop (of_nat (11 - k)) e w))
         \<and> (fst (ensureDockerIsAvailable_loop (of_nat (11 - k)) e w) \<noteq> None \<longrightarrow>
              fst (ensureDockerIsAvailable_loop (of_nat (11 - k)) e w) =
                Some (Errorf ''error: unable to start Docker for Mac''))"
  using assms
proof (induction k arbitrary: w e)
  case 0
  from retries_facts [of 11] have "sint (of_nat 11 :: 64 word) \<le> 12" "(of_nat 11 :: 64 word) + 1 = 12"
    by simp_all
  with "0.prems"(2) show ?case
    by (subst (1 2 3 4) ensureDockerIsAvailable_loop.simps) simp
next
  case (Suc k)
  let ?r = "of_nat (11 - Suc k) :: 64 word"
  from Suc.prems(1) retries_facts [of "11 - Suc k"]
  have t: "sint ?r \<le> 12" "?r + 1 \<noteq> 12"
    by simp_all
  have n: "?r + 1 = of_nat (11 - k)"
    using Suc.prems(1) by (simp add: Suc_diff_Suc flip: of_nat_Suc)
  from t(2) have t': "(of_nat (11 - k) :: 64 word) \<noteq> 12"
    unfolding n .
  obtain r w1 where c: "client_ContainerList ContainerListOptions_zero (time_Sleep 5 w) = (r, w1)"
    by (cases "client_ContainerList ContainerListOptions_zero (time_Sleep 5 w)") auto
  from client_logs(1) [OF c]
  have l: "log w1 = log w @ [(Call_ContainerList ContainerListOptions_zero, failed r)]"
    by (simp add: time_Sleep_def)
  show ?case
  proof (cases r)
    case (Inr cs)
    with l have "answered w1"
      by (simp add: answered_call)
    with t(1) t' n c Inr show ?thesis
      by (subst (1 2 3 4) ensureDockerIsAvailable_loop.simps) simp
  next
    case (Inl err')
    with l have a: "\<not> answered w1"
      by (simp add: answered_call)
    have k: "k \<le> 11"
      using Suc.prems(1) by simp
    have u: "ensureDockerIsAvailable_loop ?r e w =
               ensureDockerIsAvailable_loop (of_nat (11 - k)) (Some err') w1"
      using t(1) t' c Inl n by (subst ensureDockerIsAvailable_loop.simps) simp
    from Suc.IH [OF k a, of "Some err'"] show ?thesis
      unfolding u .
  qed
qed

lemma step_ensureDockerIsAvailable:
  "step is_listing w (snd (ensureDockerIsAvailable w)) (fst (ensureDockerIsAvailable w))"
proof -
  obtain r w1 where c: "client_ContainerList ContainerListOptions_zero w = (r, w1)"
    by (cases "client_ContainerList ContainerListOptions_zero w") auto
  note s = step_listing [OF c]
  let ?w2 = "w1\<lparr>stdout := stdout w1 @
               [Println (''Docker doesn'' @ [CHR 0x27]
                  @ ''t appear to be running. Trying to start Docker.'')]\<rparr>"
  have "step is_listing w1 (snd (ensureDockerIsAvailable_loop 0 None ?w2))
          (fst (ensureDockerIsAvailable_loop 0 None ?w2))"
    using ensureDockerIsAvailable_loop_step [of ?w2 0 None] by simp
  with s [of None] have "step is_listing w (snd (ensureDockerIsAvailable_loop 0 None ?w2))
          (fst (ensureDockerIsAvailable_loop 0 None ?w2))"
    by (rule step_trans)
  with s c show ?thesis
    by (auto simp: ensureDockerIsAvailable_def Let_def split: sum.splits option.splits
        simp del: ensureDockerIsAvailable_loop.simps)
qed

lemma ensureDockerIsAvailable_other_platform:
  assumes "GOOS w \<noteq> ''darwin''"
  shows "step nothing w (snd (ensureDockerIsAvailable w)) (fst (ensureDockerIsAvailable w))"
proof -
  obtain r w1 where c: "client_ContainerList ContainerListOptions_zero w = (r, w1)"
    by (cases "client_ContainerList ContainerListOptions_zero w") auto
  have g: "GOOS w1 = GOOS w"
    using c by (auto simp: client_ContainerList_def daemon_call_def logged_def
        split: if_splits list.splits)
  from client_steps(1) [OF c] have "step nothing w w1 (failed r)" .
  with c g assms show ?thesis
    by (auto simp: ensureDockerIsAvailable_def split: sum.splits)
qed

lemma ensureDockerIsAvailable_answered:
  "(fst (ensureDockerIsAvailable w) = None) = answered (snd (ensureDockerIsAvailable w))"
  "GOOS w = ''darwin'' \<Longrightarrow> fst (ensureDockerIsAvailable w) \<noteq> None \<Longrightarrow>
     fst (ensureDockerIsAvailable w) = Some (Errorf ''error: unable to start Docker for Mac'')"
proof -
  obtain r w1 where c: "client_ContainerList ContainerListOptions_zero w = (r, w1)"
    by (cases "client_ContainerList ContainerListOptions_zero w") auto
  have g: "GOOS w1 = GOOS w"
    using c by (auto simp: client_ContainerList_def daemon_call_def logged_def
        split: if_splits list.splits)
  note l = client_logs(1) [OF c]
  let ?w2 = "w1\<lparr>stdout := stdout w1 @
               [Println (''Docker doesn'' @ [CHR 0x27]
                  @ ''t appear to be running. Trying to start Docker.'')]\<rparr>"
  have loop: "(fst (ensureDockerIsAvailable_loop 0 None ?w2) = None) =
           answered (snd (ensureDockerIsAvailable_loop 0 None ?w2))
         \<and> (fst (ensureDockerIsAvailable_loop 0 None ?w2) \<noteq> None \<longrightarrow>
              fst (ensureDockerIsAvailable_loop 0 None ?w2) =
                Some (Errorf ''error: unable to start Docker for Mac''))"
    if a: "\<not> answered w1"
  proof -
    have z: "(of_nat (11 - 11) :: 64 word) = 0"
      by simp
    from a have "\<not> answered ?w2"
      by simp
    from ensureDockerIsAvailable_loop_answered [OF order_refl this, of None] show ?thesis
      unfolding z .
  qed
  show "(fst (ensureDockerIsAvailable w) = None) = answered (snd (ensureDockerIsAvailable w))"
  proof (cases r)
    case (Inr cs)
    with c l show ?thesis
      by (simp add: ensureDockerIsAvailable_def answered_call)
  next
    case (Inl err)
    with l have a: "\<not> answered w1"
      by (simp add: answered_call)
    with c Inl loop [OF a] show ?thesis
      by (auto simp: ensureDockerIsAvailable_def Let_def split: option.splits
          simp del: ensureDockerIsAvailable_loop.simps)
  qed
  show "fst (ensureDockerIsAvailable w) = Some (Errorf ''error: unable to start Docker for Mac'')"
    if d: "GOOS w = ''darwin''" and f: "fst (ensureDockerIsAvailable w) \<noteq> None"
  proof (cases r)
    case (Inr cs)
    with c f show ?thesis
      by (simp add: ensureDockerIsAvailable_def)
  next
    case (Inl err)
    with l have a: "\<not> answered w1"
      by (simp add: answered_call)
    with c Inl loop [OF a] d g f show ?thesis
      by (auto simp: ensureDockerIsAvailable_def Let_def split: option.splits
          simp del: ensureDockerIsAvailable_loop.simps)
  qed
qed

lemma NewController_step:
  "step is_listing w (snd (NewController w)) (snd (fst (NewController w)))"
  "GOOS w \<noteq> ''darwin'' \<Longrightarrow> step nothing w (snd (NewController w)) (snd (fst (NewController w)))"
  "(snd (fst (NewController w)) = None) =
     (NewClientWithOpts w = None \<and> answered (snd (NewController w)))"
proof -
  obtain err w1 where e: "ensureDockerIsAvailable w = (err, w1)"
    by (cases "ensureDockerIsAvailable w") auto
  from step_ensureDockerIsAvailable [of w] e
  show "step is_listing w (snd (NewController w)) (snd (fst (NewController w)))"
    by (auto simp: NewController_def split: option.splits)
  from ensureDockerIsAvailable_answered(1) [of w] e
  show "(snd (fst (NewController w)) = None) =
     (NewClientWithOpts w = None \<and> answered (snd (NewController w)))"
    by (auto simp: NewController_def split: option.splits)
  assume "GOOS w \<noteq> ''darwin''"
  from ensureDockerIsAvailable_other_platform [OF this] e
  show "step nothing w (snd (NewController w)) (snd (fst (NewController w)))"
    by (auto simp: NewController_def split: option.splits)
qed

text \<open>
  On a Mac whose daemon never answers: twelve listings, eleven sleeps of five seconds
  between them, and the error of the method.
\<close>

lemma mac_down_eval:
  "fst (ensureDockerIsAvailable mac_down) = Some (Errorf ''error: unable to start Docker for Mac'')"
  "length (failures mac_down (snd (ensureDockerIsAvailable mac_down))) = 12"
  "trace (snd (ensureDockerIsAvailable mac_down)) =
     [Sleep 5, Sleep 5, Sleep 5, Sleep 5, Sleep 5, Sleep 5, Sleep 5, Sleep 5, Sleep 5, Sleep 5, Sleep 5]"
  by (simp_all add: ensureDockerIsAvailable_def ensureDockerIsAvailable_loop.simps Let_def
      client_ContainerList_def daemon_call_def logged_def time_Sleep_def failures_def
      mac_down_def up_def quiet_def)

text \<open>On a Mac whose daemon fails the first listing only: no error.\<close>

lemma mac_eval:
  "fst (ensureDockerIsAvailable mac) = None"
  "failures mac (snd (ensureDockerIsAvailable mac)) =
     [(Call_ContainerList ContainerListOptions_zero, DaemonFault 0)]"
  "fst (NewController mac) = (Some DockerClient, None)"
  by (simp_all add: NewController_def ensureDockerIsAvailable_def ensureDockerIsAvailable_loop.simps Let_def
      client_ContainerList_def daemon_call_def logged_def time_Sleep_def failures_def
      mac_def deaf_def up_def quiet_def ContainerListOptions_zero_def)

text \<open>
  C4, as amended. Every failure of a daemon call made by a method of the adapter is
  returned to the caller as the error of that method, with four exceptions:
  \<^item> a failed listing inside \<open>IsContainerRunning\<close>, which has no error to return and answers
    "not running": \<open>ContainerStop\<close>, \<open>ContainerRestart\<close> and \<open>ContainerExec\<close> then return
    success having done nothing, and \<open>ContainerGetMounts\<close> returns no mounts;
  \<^item> a failed inspection inside \<open>ContainerGetMounts\<close>, which has no error to return and
    returns no mounts;
  \<^item> a failed fetch of the log inside \<open>ContainerRunAndClean\<close>;
  \<^item> on a Mac, a failed listing inside \<open>ensureDockerIsAvailable\<close>, and so inside
    \<open>NewController\<close>: Docker is started and the listing repeated; no error is returned
    exactly when the last listing made was answered, and the error of the method itself,
    not the daemon's, otherwise. On any other platform the failure is returned.

  The methods are those of the sources: \<open>NewController\<close>, \<open>ensureDockerIsAvailable\<close>,
  \<open>ListContainers\<close>, \<open>IsContainerRunning\<close>, \<open>ContainerGetMounts\<close>, \<open>ContainerRun\<close>,
  \<open>ContainerWait\<close>, \<open>ContainerLog\<close>, \<open>ContainerRunAndClean\<close>, \<open>ContainerStop\<close>,
  \<open>ContainerRestart\<close>, \<open>ContainerExec\<close>, \<open>findNetworkByName\<close>, \<open>findNetworkById\<close>,
  \<open>EnsureNetwork\<close> and \<open>RemoveNetwork\<close>; \<open>getNetworkConfig\<close> calls no daemon. The failed
  removal after a one-shot run is among the failures returned.
\<close>

theorem adapter_failures:
  "returned is_listing w (snd (NewController w)) (snd (fst (NewController w)))
   \<and> returned is_listing w (snd (ensureDockerIsAvailable w)) (fst (ensureDockerIsAvailable w))
   \<and> (GOOS w \<noteq> ''darwin'' \<longrightarrow>
        returned nothing w (snd (NewController w)) (snd (fst (NewController w)))
        \<and> returned nothing w (snd (ensureDockerIsAvailable w)) (fst (ensureDockerIsAvailable w)))
   \<and> (GOOS w = ''darwin'' \<and> fst (ensureDockerIsAvailable w) \<noteq> None \<longrightarrow>
        fst (ensureDockerIsAvailable w) = Some (Errorf ''error: unable to start Docker for Mac''))
   \<and> (fst (ensureDockerIsAvailable w) = None \<longleftrightarrow> answered (snd (ensureDockerIsAvailable w)))
   \<and> (snd (fst (NewController w)) = None \<longleftrightarrow>
        NewClientWithOpts w = None \<and> answered (snd (NewController w)))
   \<and> returned nothing w (snd (ListContainers site w)) (snd (fst (ListContainers site w)))
   \<and> returned is_listing w (snd (IsContainerRunning n w)) None
   \<and> returned is_listing_or_inspect w (snd (ContainerGetMounts n w)) None
   \<and> (failures w (snd (ContainerGetMounts n w)) \<noteq> [] \<longrightarrow> fst (ContainerGetMounts n w) = [])
   \<and> returned is_listing w (snd (ContainerRun config w)) (snd (fst (ContainerRun config w)))
   \<and> returned nothing w (snd (ContainerWait cid w)) (snd (fst (ContainerWait cid w)))
   \<and> returned nothing w (snd (ContainerLog cid w)) (snd (fst (ContainerLog cid w)))
   \<and> returned is_listing_or_logs w (snd (ContainerRunAndClean config w))
        (snd (snd (fst (ContainerRunAndClean config w))))
   \<and> returned is_listing w (snd (ContainerStop n w)) (snd (fst (ContainerStop n w)))
   \<and> returned is_listing w (snd (ContainerRestart n w)) (snd (fst (ContainerRestart n w)))
   \<and> returned is_listing w (snd (ContainerExec n command w)) (snd (fst (ContainerExec n command w)))
   \<and> returned nothing w (snd (findNetworkByName n w)) (snd (snd (fst (findNetworkByName n w))))
   \<and> returned nothing w (snd (findNetworkById n w)) (snd (snd (fst (findNetworkById n w))))
   \<and> returned nothing w (snd (EnsureNetwork n w)) (snd (snd (fst (EnsureNetwork n w))))
   \<and> returned nothing w (snd (RemoveNetwork n w)) (snd (fst (RemoveNetwork n w)))
   \<and> (faults w (length (log w)) \<longrightarrow>
        fst (IsContainerRunning n w) = ([], False)
        \<and> fst (ContainerStop n w) = (True, None)
        \<and> fst (ContainerRestart n w) = (True, None)
        \<and> fst (ContainerExec n command w) = (ExecResult_zero, None)
        \<and> fst (ContainerGetMounts n w) = [])"
proof (intro conjI impI)
  show "returned is_listing w (snd (NewController w)) (snd (fst (NewController w)))"
    by (intro step_returned NewController_step(1))
  show "returned is_listing w (snd (ensureDockerIsAvailable w)) (fst (ensureDockerIsAvailable w))"
    by (intro step_returned step_ensureDockerIsAvailable)
  show "(fst (ensureDockerIsAvailable w) = None) = answered (snd (ensureDockerIsAvailable w))"
    by (rule ensureDockerIsAvailable_answered(1))
  show "(snd (fst (NewController w)) = None) =
          (NewClientWithOpts w = None \<and> answered (snd (NewController w)))"
    by (rule NewController_step(3))
  show "returned nothing w (snd (ListContainers site w)) (snd (fst (ListContainers site w)))"
    by (intro step_returned step_ListContainers [of site w "fst (fst (ListContainers site w))"]) simp
  show "returned is_listing w (snd (IsContainerRunning n w)) None"
    by (intro step_returned step_IsContainerRunning [of n w "fst (IsContainerRunning n w)"]) simp
  show "returned is_listing_or_inspect w (snd (ContainerGetMounts n w)) None"
    by (intro step_returned step_ContainerGetMounts [of n w "fst (ContainerGetMounts n w)"]) simp
  show "returned is_listing w (snd (ContainerRun config w)) (snd (fst (ContainerRun config w)))"
    by (intro step_returned step_ContainerRun [of config w "fst (fst (ContainerRun config w))"])
      simp
  show "returned nothing w (snd (ContainerWait cid w)) (snd (fst (ContainerWait cid w)))"
    by (intro step_returned step_ContainerWait [of cid w "fst (fst (ContainerWait cid w))"]) simp
  show "returned nothing w (snd (ContainerLog cid w)) (snd (fst (ContainerLog cid w)))"
    by (intro step_returned step_ContainerLog [of cid w "fst (fst (ContainerLog cid w))"]) simp
  show "returned is_listing_or_logs w (snd (ContainerRunAndClean config w))
          (snd (snd (fst (ContainerRunAndClean config w))))"
    by (intro step_returned step_ContainerRunAndClean
          [of config w "fst (fst (ContainerRunAndClean config w))"
            "fst (snd (fst (ContainerRunAndClean config w)))"]) simp
  show "returned is_listing w (snd (ContainerStop n w)) (snd (fst (ContainerStop n w)))"
    by (intro step_returned step_ContainerStop [of n w "fst (fst (ContainerStop n w))"]) simp
  show "returned is_listing w (snd (ContainerRestart n w)) (snd (fst (ContainerRestart n w)))"
    by (intro step_returned step_ContainerRestart [of n w "fst (fst (ContainerRestart n w))"]) simp
  show "returned is_listing w (snd (ContainerExec n command w)) (snd (fst (ContainerExec n command w)))"
    by (intro step_returned step_ContainerExec [of n command w "fst (fst (ContainerExec n command w))"])
      simp
  show "returned nothing w (snd (findNetworkByName n w)) (snd (snd (fst (findNetworkByName n w))))"
    by (intro step_returned step_findNetworkByName
          [of n w "fst (fst (findNetworkByName n w))" "fst (snd (fst (findNetworkByName n w)))"]) simp
  show "returned nothing w (snd (findNetworkById n w)) (snd (snd (fst (findNetworkById n w))))"
    by (intro step_returned step_findNetworkById
          [of n w "fst (fst (findNetworkById n w))" "fst (snd (fst (findNetworkById n w)))"]) simp
  show "returned nothing w (snd (EnsureNetwork n w)) (snd (snd (fst (EnsureNetwork n w))))"
    by (intro step_returned step_EnsureNetwork
          [of n w "fst (fst (EnsureNetwork n w))" "fst (snd (fst (EnsureNetwork n w)))"]) simp
  show "returned nothing w (snd (RemoveNetwork n w)) (snd (fst (RemoveNetwork n w)))"
    by (intro step_returned step_RemoveNetwork [of n w "fst (fst (RemoveNetwork n w))"]) simp
next
  assume g: "GOOS w \<noteq> ''darwin''"
  then show "returned nothing w (snd (NewController w)) (snd (fst (NewController w)))"
    by (intro step_returned NewController_step(2))
  from g show "returned nothing w (snd (ensureDockerIsAvailable w)) (fst (ensureDockerIsAvailable w))"
    by (intro step_returned ensureDockerIsAvailable_other_platform)
next
  assume "GOOS w = ''darwin'' \<and> fst (ensureDockerIsAvailable w) \<noteq> None"
  then show "fst (ensureDockerIsAvailable w) = Some (Errorf ''error: unable to start Docker for Mac'')"
    by (intro ensureDockerIsAvailable_answered(2)) simp_all
next
  assume "failures w (snd (ContainerGetMounts n w)) \<noteq> []"
  then show "fst (ContainerGetMounts n w) = []"
    by (rule ContainerGetMounts_failed)
next
  assume f: "faults w (length (log w))"
  then show i: "fst (IsContainerRunning n w) = ([], False)"
    by (simp add: IsContainerRunning_eq)
  from f show "fst (ContainerStop n w) = (True, None)"
    by (simp add: ContainerStop_def IsContainerRunning_eq)
  from f show "fst (ContainerRestart n w) = (True, None)"
    by (simp add: ContainerRestart_def IsContainerRunning_eq)
  from f show "fst (ContainerExec n command w) = (ExecResult_zero, None)"
    by (simp add: ContainerExec_def IsContainerRunning_eq)
  from f show "fst (ContainerGetMounts n w) = []"
    by (simp add: ContainerGetMounts_def IsContainerRunning_eq)
qed

theorem adapter_failures_witness:
  "faults deaf (length (log deaf))
   \<and> fst (ContainerExec ''kana_demo_wordpress'' [''ls''] deaf) = (ExecResult_zero, None)
   \<and> fst (ContainerStop ''kana_demo_wordpress'' stuck) = (False, Some (DaemonFault 1))
   \<and> failures stuck (snd (ContainerStop ''kana_demo_wordpress'' stuck)) =
       [(Call_ContainerStop ''wp1'', DaemonFault 1)]
   \<and> failures stuck (snd (ContainerGetMounts ''kana_demo_wordpress'' stuck)) \<noteq> []
   \<and> fst (ContainerGetMounts ''kana_demo_wordpress'' stuck) = []
   \<and> GOOS deaf \<noteq> ''darwin''
   \<and> failures deaf (snd (ensureDockerIsAvailable deaf)) =
       [(Call_ContainerList ContainerListOptions_zero, DaemonFault 0)]
   \<and> fst (ensureDockerIsAvailable deaf) = Some (DaemonFault 0)
   \<and> GOOS mac_down = ''darwin''
   \<and> \<not> answered (snd (ensureDockerIsAvailable mac_down))
   \<and> fst (ensureDockerIsAvailable mac_down) = Some (Errorf ''error: unable to start Docker for Mac'')"
proof -
  note stuck = adapter_failures [where w = stuck and n = "''kana_demo_wordpress''"]
  note deaf = adapter_failures [where w = deaf and n = "''kana_demo_wordpress''" and command = "[''ls'']"]
  note mac_down = adapter_failures [where w = mac_down]
  have f: "faults deaf (length (log deaf))"
    by (simp add: deaf_def example_defs)
  have l: "failures stuck (snd (ContainerStop ''kana_demo_wordpress'' stuck)) =
             [(Call_ContainerStop ''wp1'', DaemonFault 1)]"
    by (simp add: failures_def adapter_defs client_defs example_defs stuck_def)
  from stuck
  have "returned is_listing stuck (snd (ContainerStop ''kana_demo_wordpress'' stuck))
          (snd (fst (ContainerStop ''kana_demo_wordpress'' stuck)))"
    by blast
  then have "snd (fst (ContainerStop ''kana_demo_wordpress'' stuck)) = Some (DaemonFault 1)"
    unfolding returned_def l by (simp add: is_listing_def)
  moreover have "fst (fst (ContainerStop ''kana_demo_wordpress'' stuck)) = False"
    by (simp add: adapter_defs client_defs example_defs stuck_def)
  ultimately have a: "fst (ContainerStop ''kana_demo_wordpress'' stuck) = (False, Some (DaemonFault 1))"
    by (simp add: prod_eq_iff)
  from deaf f
  have b: "fst (ContainerExec ''kana_demo_wordpress'' [''ls''] deaf) = (ExecResult_zero, None)"
    by blast
  have m: "failures stuck (snd (ContainerGetMounts ''kana_demo_wordpress'' stuck)) \<noteq> []"
    by (simp add: failures_def adapter_defs client_defs example_defs stuck_def)
  with stuck have c: "fst (ContainerGetMounts ''kana_demo_wordpress'' stuck) = []"
    by blast
  have g: "GOOS deaf \<noteq> ''darwin''"
    by (simp add: deaf_def up_def quiet_def)
  have e: "failures deaf (snd (ensureDockerIsAvailable deaf)) =
             [(Call_ContainerList ContainerListOptions_zero, DaemonFault 0)]"
    by (simp add: failures_def ensureDockerIsAvailable_def client_ContainerList_def daemon_call_def
        logged_def deaf_def up_def quiet_def ContainerListOptions_zero_def)
  from deaf g
  have "returned nothing deaf (snd (ensureDockerIsAvailable deaf)) (fst (ensureDockerIsAvailable deaf))"
    by blast
  then have d: "fst (ensureDockerIsAvailable deaf) = Some (DaemonFault 0)"
    unfolding returned_def e by (simp add: nothing_def)
  have h: "GOOS mac_down = ''darwin''"
    by (simp add: mac_down_def)
  have n: "\<not> answered (snd (ensureDockerIsAvailable mac_down))"
    by (simp add: answered_def ensureDockerIsAvailable_def ensureDockerIsAvailable_loop.simps Let_def
      client_ContainerList_def daemon_call_def logged_def time_Sleep_def
      mac_down_def up_def quiet_def)
  from mac_down n have "fst (ensureDockerIsAvailable mac_down) \<noteq> None"
    by blast
  with mac_down h
  have k: "fst (ensureDockerIsAvailable mac_down) = Some (Errorf ''error: unable to start Docker for Mac'')"
    by blast
  from f b a l m c g e d h n k show ?thesis
    by (simp only: simp_thms)
qed

text \<open>
  The claim as it stands fails at each of the four exceptions, and at the one it names.
  Where the listing fails, the app container is running, \<open>ContainerStop\<close> reports success
  with no error, and the container is still there. Where the inspection fails,
  \<open>ContainerGetMounts\<close> returns no mounts. Where the fetch of the log fails,
  \<open>ContainerRunAndClean\<close> returns an empty log and no error. Where the removal fails,
  \<open>ContainerRunAndClean\<close> returns that failure. On a Mac whose daemon fails the first
  listing and answers the second, \<open>ensureDockerIsAvailable\<close> and \<open>NewController\<close> return no
  error.
\<close>

theorem adapter_failures_counterexample:
  "runs_as deaf ''kana_demo_wordpress''
   \<and> fst (ContainerStop ''kana_demo_wordpress'' deaf) = (True, None)
   \<and> log (snd (ContainerStop ''kana_demo_wordpress'' deaf)) =
       [(Call_ContainerList ContainerListOptions_zero, Some (DaemonFault 0))]
   \<and> containers (snd (ContainerStop ''kana_demo_wordpress'' deaf)) = containers deaf
   \<and> fst (ContainerGetMounts ''kana_demo_wordpress'' stuck) = []
   \<and> failures stuck (snd (ContainerGetMounts ''kana_demo_wordpress'' stuck)) =
       [(Call_ContainerInspect ''wp1'', DaemonFault 1)]
   \<and> fst (ContainerRunAndClean (a_spec ''kana_demo_wordpress_cli'') logless) = (0, [], None)
   \<and> failures logless (snd (ContainerRunAndClean (a_spec ''kana_demo_wordpress_cli'') logless)) =
       [(Call_ContainerLogs ''c'', DaemonFault 4)]
   \<and> fst (ContainerRunAndClean (a_spec ''kana_demo_wordpress_cli'') unremovable) =
       (0, ''plugins.json'', Some (DaemonFault 5))
   \<and> fst (ensureDockerIsAvailable mac) = None
   \<and> failures mac (snd (ensureDockerIsAvailable mac)) =
       [(Call_ContainerList ContainerListOptions_zero, DaemonFault 0)]
   \<and> fst (NewController mac) = (Some DockerClient, None)"
proof -
  have a: "runs_as deaf ''kana_demo_wordpress''
   \<and> fst (ContainerStop ''kana_demo_wordpress'' deaf) = (True, None)
   \<and> log (snd (ContainerStop ''kana_demo_wordpress'' deaf)) =
       [(Call_ContainerList ContainerListOptions_zero, Some (DaemonFault 0))]
   \<and> containers (snd (ContainerStop ''kana_demo_wordpress'' deaf)) = containers deaf"
    by (simp add: adapter_defs example_defs deaf_def runs_as_def carries_def
      client_ContainerList_def daemon_call_def logged_def ContainerListOptions_zero_def)
  have b: "fst (ContainerGetMounts ''kana_demo_wordpress'' stuck) = []
   \<and> failures stuck (snd (ContainerGetMounts ''kana_demo_wordpress'' stuck)) =
       [(Call_ContainerInspect ''wp1'', DaemonFault 1)]"
    by (simp add: failures_def adapter_defs client_defs example_defs stuck_def)
  have c: "fst (ContainerRunAndClean (a_spec ''kana_demo_wordpress_cli'') logless) = (0, [], None)
   \<and> failures logless (snd (ContainerRunAndClean (a_spec ''kana_demo_wordpress_cli'') logless)) =
       [(Call_ContainerLogs ''c'', DaemonFault 4)]"
    by (simp add: failures_def adapter_defs client_defs example_defs logless_def)
  have d: "fst (ContainerRunAndClean (a_spec ''kana_demo_wordpress_cli'') unremovable) =
       (0, ''plugins.json'', Some (DaemonFault 5))"
    by (simp add: adapter_defs client_defs example_defs unremovable_def)
  from a b c d mac_eval show ?thesis
    by (simp only: simp_thms)
qed
section \<open>Properties of the site\<close>

subsection \<open>IsSiteRunning\<close>

lemma listed_all_label:
  "listed \<lparr>AllContainers = True, Filters = [(k, v)]\<rparr> = label_match v"
  by (rule ext) (simp add: listed_def)

lemma label_match_fun:
  "label_match (''kana.site='' @ site) = (\<lambda>c. Config_Labels (Config c) ''kana.site'' = Some site)"
  "label_match ''kana.site'' = (\<lambda>c. Config_Labels (Config c) ''kana.site'' \<noteq> None)"
  by (rule ext, simp add: label_match_def)+

lemma ListContainers_eq:
  "ListContainers site w =
     (let options = \<lparr>AllContainers = True,
                     Filters = [(''label'', if site = [] then ''kana.site'' else ''kana.site='' @ site)]\<rparr>
      in if faults w (length (log w))
         then (([], Some (DaemonFault (length (log w)))),
               logged (Call_ContainerList options) (Some (DaemonFault (length (log w)))) w)
         else ((map ID (filter (\<lambda>c. if site = [] then Config_Labels (Config c) ''kana.site'' \<noteq> None
                                      else Config_Labels (Config c) ''kana.site'' = Some site)
                          (containers w)), None),
               logged (Call_ContainerList options) None w))"
  using label_match_fun(1) [of site] label_match_fun(2)
  by (simp add: ListContainers_def client_ContainerList_def daemon_call_def listed_all_label Let_def)

text \<open>
  C10, as amended. For every site with a name that is not empty, \<open>IsSiteRunning\<close>
  returns true exactly when the daemon answers the listing and at least one container,
  running or stopped, carries the label \<open>kana.site\<close> with the site's name as its value;
  for the site with the empty name it returns true exactly when the daemon answers and at
  least one container carries the label \<open>kana.site\<close> with any value. The listing is the
  one daemon call it makes, with the all-containers option; when that call fails the
  result is false and no error is returned.
\<close>

theorem IsSiteRunning_label:
  "(SiteName (StaticConfig s) \<noteq> [] \<longrightarrow>
      fst (IsSiteRunning s w) =
        (\<not> faults w (length (log w))
         \<and> list_ex (\<lambda>c. Config_Labels (Config c) ''kana.site'' = Some (SiteName (StaticConfig s)))
             (containers w)))
   \<and> (SiteName (StaticConfig s) = [] \<longrightarrow>
      fst (IsSiteRunning s w) =
        (\<not> faults w (length (log w))
         \<and> list_ex (\<lambda>c. Config_Labels (Config c) ''kana.site'' \<noteq> None) (containers w)))
   \<and> map fst (log (snd (IsSiteRunning s w))) =
       map fst (log w) @
         [Call_ContainerList
            \<lparr>AllContainers = True,
             Filters = [(''label'', if SiteName (StaticConfig s) = [] then ''kana.site''
                                    else ''kana.site='' @ SiteName (StaticConfig s))]\<rparr>]"
  by (simp add: IsSiteRunning_def ListContainers_eq Let_def list_ex_iff filter_empty_conv)

theorem IsSiteRunning_label_witness:
  "SiteName (StaticConfig demo) \<noteq> []
   \<and> fst (IsSiteRunning demo half_up)
   \<and> \<not> fst (IsSiteRunning demo quiet)
   \<and> \<not> fst (IsSiteRunning demo (half_up\<lparr>faults := (\<lambda>n. True)\<rparr>))
   \<and> SiteName (StaticConfig nameless) = []
   \<and> \<not> fst (IsSiteRunning nameless quiet)"
  using IsSiteRunning_label [of demo half_up] IsSiteRunning_label [of demo quiet]
    IsSiteRunning_label [of demo "half_up\<lparr>faults := (\<lambda>n. True)\<rparr>"]
    IsSiteRunning_label [of nameless quiet]
  by (simp add: example_defs)

text \<open>
  The claim as it stands fails for the site with the empty name: a stopped container
  of the site \<open>demo\<close> makes it "running", and no container carries \<open>kana.site\<close> with the
  empty value.
\<close>

theorem IsSiteRunning_empty_name_counterexample:
  "fst (IsSiteRunning nameless half_up)
   \<and> \<not> list_ex (\<lambda>c. Config_Labels (Config c) ''kana.site'' = Some (SiteName (StaticConfig nameless)))
         (containers half_up)"
  by (simp add: IsSiteRunning_def ListContainers_eq Let_def example_defs)

subsection \<open>The images\<close>

text \<open>
  The two images carry the same PHP version when the two configurations the code reads
  it from agree.
\<close>

lemma images_agree:
  "GetString (DynamicConfig s) ''php'' = GetString (SiteConfig s) ''php'' \<Longrightarrow>
   Image (RunWPCli_container s appVolumes fullCommand) =
     ''wordpress:cli-php'' @ GetString (SiteConfig s) ''php''
   \<and> Image (wordPressContainers s databaseDir appVolumes' ! 1) =
     ''wordpress:php'' @ GetString (SiteConfig s) ''php''"
  by (simp add: RunWPCli_container_def wordPressContainers_def)

text \<open>
  C5. The claim: the one-shot container \<open>RunWPCli\<close> builds uses the command-line variant
  of the app image with the PHP version of the app container \<open>StartWordPress\<close> builds.
  \<open>StartWordPress\<close> reads the version from \<open>SiteConfig\<close>, \<open>RunWPCli\<close> from \<open>DynamicConfig\<close>.
  For the site \<open>demo\<close>, whose own configuration says 8.0 where the global one says 7.4:
  started on a daemon with no container, and then asked for its plugins, the daemon is
  asked to create the app container from \<open>wordpress:php8.0\<close> and the one-shot container
  from \<open>wordpress:cli-php7.4\<close>.
\<close>

theorem RunWPCli_image_other_php:
  "GetString (SiteConfig demo) ''php'' = ''8.0''
   \<and> GetString (DynamicConfig demo) ''php'' = ''7.4''
   \<and> map Image (wordPressContainers demo ''/home/dev/.config/kana/sites/demo/database'' []) =
       [''mariadb'', ''wordpress:php8.0'']
   \<and> Image (RunWPCli_container demo [] [''wp'', ''--path=/var/www/html'', ''plugin'', ''list'']) =
       ''wordpress:cli-php7.4''
   \<and> fst (StartWordPress plain_site demo quiet) = None
   \<and> snd (fst (RunWPCli plain_site demo [''plugin'', ''list'']
              (snd (StartWordPress plain_site demo quiet)))) = None
   \<and> creations (snd (RunWPCli plain_site demo [''plugin'', ''list'']
                   (snd (StartWordPress plain_site demo quiet)))) =
       [Call_ContainerCreate ''kana_demo_database'' ''mariadb'',
        Call_ContainerCreate ''kana_demo_wordpress'' ''wordpress:php8.0'',
        Call_ContainerCreate ''kana_demo_wordpress_cli'' ''wordpress:cli-php7.4'']"
  by (simp add: creations_def StartWordPress_def os_Remove_def site_defs adapter_defs client_defs
      example_defs)

subsection \<open>The installed plugins\<close>

lemma GetInstalledWordPressPlugins_loop_eq:
  "GetInstalledWordPressPlugins_loop s rawPlugins plugins =
     plugins @ map PluginInfo.Name
       (filter (\<lambda>p. Status p \<noteq> ''dropin''
                   \<and> PluginInfo.Name p \<notin> {SiteName (StaticConfig s), ''hello'', ''akismet''})
          rawPlugins)"
  by (induction rawPlugins arbitrary: plugins) auto

text \<open>
  C7. For every raw plugin list parsed from the output of the plugin-listing command,
  \<open>GetInstalledWordPressPlugins\<close> returns exactly the names of the entries whose status is
  not \<open>dropin\<close> and whose name is none of the site's own name, \<open>hello\<close> and \<open>akismet\<close>, in
  the order of the list, and no error.
\<close>

theorem GetInstalledWordPressPlugins_filter:
  assumes "RunWPCli X s [''plugin'', ''list'', ''--format=json''] w = ((commandOutput, None), w1)"
      and "Unmarshal w1 commandOutput = Inr rawPlugins"
  shows "GetInstalledWordPressPlugins X s w =
           ((map PluginInfo.Name
               (filter (\<lambda>p. Status p \<noteq> ''dropin''
                           \<and> PluginInfo.Name p \<notin> {SiteName (StaticConfig s), ''hello'', ''akismet''})
                  rawPlugins), None), w1)"
  using assms
  by (simp add: GetInstalledWordPressPlugins_def GetInstalledWordPressPlugins_loop_eq)

lemma RunWPCli_listing:
  "fst (RunWPCli plain_site demo [''plugin'', ''list'', ''--format=json''] listing) =
     (''plugins.json'', None)"
  "Unmarshal (snd (RunWPCli plain_site demo [''plugin'', ''list'', ''--format=json''] listing))
     ''plugins.json'' = Inr plugins_listed"
  by (simp_all add: site_defs adapter_defs client_defs example_defs listing_def)

theorem GetInstalledWordPressPlugins_filter_witness:
  "fst (RunWPCli plain_site demo [''plugin'', ''list'', ''--format=json''] listing) =
     (''plugins.json'', None)
   \<and> fst (GetInstalledWordPressPlugins plain_site demo listing) =
       ([''query-monitor'', ''debug-bar''], None)"
proof -
  let ?w1 = "snd (RunWPCli plain_site demo [''plugin'', ''list'', ''--format=json''] listing)"
  have r: "RunWPCli plain_site demo [''plugin'', ''list'', ''--format=json''] listing =
             ((''plugins.json'', None), ?w1)"
    using RunWPCli_listing(1) by (simp add: prod_eq_iff)
  have n: "SiteName (StaticConfig demo) = ''demo''"
    by (simp add: example_defs)
  show ?thesis
    using GetInstalledWordPressPlugins_filter [OF r RunWPCli_listing(2)] RunWPCli_listing(1)
    by (simp add: plugins_listed_def n)
qed

subsection \<open>Readiness\<close>

lemma is_event_simps [simp]:
  "is_HttpGet (HttpGet c u)" "\<not> is_HttpGet (Sleep n)" "is_Sleep (Sleep n)" "\<not> is_Sleep (HttpGet c u)"
  by (simp_all add: is_HttpGet_def is_Sleep_def)

lemma never_okD:
  "never_ok f \<Longrightarrow> \<exists>StatusCode. f n = Inr StatusCode \<and> StatusCode \<noteq> 200"
  unfolding never_ok_def
  by (cases "f n") (auto dest: spec [of _ n])

lemma tries_less: "k < 30 \<Longrightarrow> (of_nat k :: 64 word) \<noteq> 30"
proof
  assume k: "k < 30" and e: "(of_nat k :: 64 word) = 30"
  from e have "unat (of_nat k :: 64 word) = unat (30 :: 64 word)"
    by simp
  with k show False
    by (simp add: unat_of_nat)
qed

text \<open>
  The loop entered with \<open>tries = 30 - k\<close> against an endpoint that never answers 200:
  \<open>k\<close> rounds of a request and a sleep, then the request after which \<open>tries\<close> is 30.
\<close>

lemma VerifySite_loop_never_ok:
  assumes "never_ok (endpoint w client)" and "StatusCode \<noteq> 200" and "k \<le> 30"
  shows "VerifySite_loop client u StatusCode (of_nat (30 - k)) w =
           ((False, Some (Errorf ''timeout reached. unable to open site'')),
            w\<lparr>trace := trace w @ concat (replicate k [HttpGet client u, Sleep 1]) @ [HttpGet client u]\<rparr>)"
  using assms
proof (induction k arbitrary: w StatusCode)
  case 0
  obtain sc where sc: "endpoint w client (length (filter is_HttpGet (trace w))) = Inr sc" "sc \<noteq> 200"
    using never_okD [OF "0.prems"(1)] by blast
  then have "http_Get client u w = (Inr sc, w\<lparr>trace := trace w @ [HttpGet client u]\<rparr>)"
    by (simp add: http_Get_def)
  with sc "0.prems" show ?case
    by simp
next
  case (Suc k)
  obtain sc where sc: "endpoint w client (length (filter is_HttpGet (trace w))) = Inr sc" "sc \<noteq> 200"
    using never_okD [OF Suc.prems(1)] by blast
  then have g: "http_Get client u w = (Inr sc, w\<lparr>trace := trace w @ [HttpGet client u]\<rparr>)"
    by (simp add: http_Get_def)
  let ?w = "time_Sleep 1 (w\<lparr>trace := trace w @ [HttpGet client u]\<rparr>)"
  have ne: "(of_nat (30 - Suc k) :: 64 word) \<noteq> 30"
    using Suc.prems(3) by (intro tries_less) simp
  have step: "(of_nat (30 - Suc k) :: 64 word) + 1 = of_nat (30 - k)"
    using Suc.prems(3) by (simp add: Suc_diff_Suc flip: of_nat_Suc)
  have "never_ok (endpoint ?w client)"
    using Suc.prems(1) by (simp add: time_Sleep_def)
  from Suc.IH [OF this sc(2)] Suc.prems(3)
  have "VerifySite_loop client u sc (of_nat (30 - k)) ?w =
          ((False, Some (Errorf ''timeout reached. unable to open site'')),
           ?w\<lparr>trace := trace ?w @ concat (replicate k [HttpGet client u, Sleep 1]) @ [HttpGet client u]\<rparr>)"
    by simp
  then show ?case
    using g sc(2) ne Suc.prems(2) step
    by (subst VerifySite_loop.simps) (simp add: time_Sleep_def)
qed

lemma filter_events [simp]:
  "length (filter is_HttpGet (concat (replicate k [HttpGet c u, Sleep n]))) = k"
  "length (filter is_Sleep (concat (replicate k [HttpGet c u, Sleep n]))) = k"
  by (induction k) simp_all

text \<open>
  Against an endpoint that never answers 200 and never fails, \<open>VerifySite\<close> ends in the
  timeout after 32 requests: the one before the loop, the 30 each followed by a sleep of
  one second, and the one after which \<open>tries\<close> is found to be 30.
\<close>

lemma VerifySite_never_ok:
  assumes "files w (rootCert s) = Inr caCert"
      and "never_ok (endpoint w (VerifySite_client [caCert]))"
  shows "VerifySite s w =
           ((False, Some (Errorf ''timeout reached. unable to open site'')),
            w\<lparr>trace := trace w @ [HttpGet (VerifySite_client [caCert]) (secureURL s)]
                  @ concat (replicate 30 [HttpGet (VerifySite_client [caCert]) (secureURL s), Sleep 1])
                  @ [HttpGet (VerifySite_client [caCert]) (secureURL s)]\<rparr>)"
proof -
  let ?client = "VerifySite_client [caCert]"
  let ?w = "w\<lparr>trace := trace w @ [HttpGet ?client (secureURL s)]\<rparr>"
  obtain sc where sc: "endpoint w ?client (length (filter is_HttpGet (trace w))) = Inr sc" "sc \<noteq> 200"
    using never_okD [OF assms(2)] by blast
  have "never_ok (endpoint ?w ?client)"
    using assms(2) by simp
  from VerifySite_loop_never_ok [OF this sc(2), of 30 "secureURL s"]
  have "VerifySite_loop ?client (secureURL s) sc 0 ?w =
          ((False, Some (Errorf ''timeout reached. unable to open site'')),
           ?w\<lparr>trace := trace ?w @ concat (replicate 30 [HttpGet ?client (secureURL s), Sleep 1])
                  @ [HttpGet ?client (secureURL s)]\<rparr>)"
    by simp
  with assms(1) sc show ?thesis
    by (simp add: VerifySite_def http_Get_def Let_def)
qed

text \<open>
  C3. The claim: when every poll of the secure URL returns a status other than 200,
  without a transport error, \<open>VerifySite\<close> fails with the timeout after exactly 30
  attempts, one second apart. For the site \<open>demo\<close>, whose endpoint answers 503 for ever,
  it fails with the timeout after 32 requests and 30 sleeps of one second; the first two
  requests have no sleep between them.
\<close>

theorem VerifySite_32_requests:
  "fst (VerifySite demo down) = (False, Some (Errorf ''timeout reached. unable to open site''))
   \<and> length (filter is_HttpGet (trace (snd (VerifySite demo down)))) = 32
   \<and> length (filter is_Sleep (trace (snd (VerifySite demo down)))) = 30
   \<and> take 3 (trace (snd (VerifySite demo down))) =
       [HttpGet \<lparr>InsecureSkipVerify = True, RootCAs = None\<rparr> (secureURL demo),
        HttpGet \<lparr>InsecureSkipVerify = True, RootCAs = None\<rparr> (secureURL demo), Sleep 1]"
proof -
  let ?c = "VerifySite_client [''-----BEGIN CERTIFICATE-----'']"
  have f: "files down (rootCert demo) = Inr ''-----BEGIN CERTIFICATE-----''"
    by (simp add: down_def example_defs)
  have n: "never_ok (endpoint down ?c)"
    by (simp add: down_def example_defs never_ok_def)
  have t: "trace down = []"
    by (simp add: down_def example_defs)
  have c: "?c = \<lparr>InsecureSkipVerify = True, RootCAs = None\<rparr>"
    by (simp add: VerifySite_client_def)
  have "replicate 30 [HttpGet ?c (secureURL demo), Sleep 1] =
          [HttpGet ?c (secureURL demo), Sleep 1] # replicate 29 [HttpGet ?c (secureURL demo), Sleep 1]"
    by (simp add: numeral_eq_Suc)
  then have "take 3 (trace (snd (VerifySite demo down))) =
               [HttpGet ?c (secureURL demo), HttpGet ?c (secureURL demo), Sleep 1]"
    using t by (simp add: VerifySite_never_ok [OF f n])
  then show ?thesis
    using t unfolding c [symmetric] by (simp add: VerifySite_never_ok [OF f n])
qed

text \<open>
  What the loop of \<open>VerifySite\<close> adds to the trace: requests with the client and the URL it
  was given, and sleeps of one second.
\<close>

lemma VerifySite_loop_trace:
  "\<exists>es. trace (snd (VerifySite_loop client u StatusCode tries w)) = trace w @ es
        \<and> set es \<subseteq> {HttpGet client u, Sleep 1}"
proof (induction client u StatusCode tries w rule: VerifySite_loop.induct)
  case (1 client u StatusCode tries w)
  show ?case
  proof (cases "StatusCode = 200")
    case True
    then show ?thesis
      by simp
  next
    case False
    let ?w1 = "w\<lparr>trace := trace w @ [HttpGet client u]\<rparr>"
    have g: "http_Get client u w = (endpoint w client (length (filter is_HttpGet (trace w))), ?w1)"
      by (simp add: http_Get_def)
    show ?thesis
    proof (cases "endpoint w client (length (filter is_HttpGet (trace w)))")
      case (Inl err)
      with False g show ?thesis
        by simp
    next
      case (Inr sc)
      show ?thesis
      proof (cases "sc = 200 \<or> tries = 30")
        case True
        with False g Inr show ?thesis
          by auto
      next
        case stop: False
        from stop have "sc \<noteq> 200" "tries \<noteq> 30"
          by simp_all
        from "1.IH" [OF False g [symmetric] Inr this]
        obtain es where es:
          "trace (snd (VerifySite_loop client u sc (tries + 1) (time_Sleep 1 ?w1))) =
             trace (time_Sleep 1 ?w1) @ es"
          "set es \<subseteq> {HttpGet client u, Sleep 1}"
          by auto
        have "VerifySite_loop client u StatusCode tries w =
                VerifySite_loop client u sc (tries + 1) (time_Sleep 1 ?w1)"
          using False g Inr stop by simp
        with es show ?thesis
          by (intro exI [of _ "[HttpGet client u, Sleep 1] @ es"]) (simp add: time_Sleep_def)
      qed
    qed
  qed
qed

lemma VerifySite_requests:
  assumes "files w (rootCert s) = Inr caCert"
  shows "\<exists>es. trace (snd (VerifySite s w)) = trace w @ HttpGet (VerifySite_client [caCert]) (secureURL s) # es
        \<and> set es \<subseteq> {HttpGet (VerifySite_client [caCert]) (secureURL s), Sleep 1}"
proof -
  let ?c = "VerifySite_client [caCert]"
  let ?w1 = "w\<lparr>trace := trace w @ [HttpGet ?c (secureURL s)]\<rparr>"
  show ?thesis
  proof (cases "endpoint w ?c (length (filter is_HttpGet (trace w)))")
    case (Inl err)
    with assms show ?thesis
      by (simp add: VerifySite_def http_Get_def Let_def)
  next
    case (Inr sc)
    with assms have v: "VerifySite s w = VerifySite_loop ?c (secureURL s) sc 0 ?w1"
      by (simp add: VerifySite_def http_Get_def Let_def del: VerifySite_loop.simps)
    from VerifySite_loop_trace [of ?c "secureURL s" sc 0 ?w1] show ?thesis
      unfolding v by auto
  qed
qed

lemma requests_append:
  "trace w' = trace w @ es \<Longrightarrow>
   requests w w' = concat (map (\<lambda>e. case e of HttpGet c u \<Rightarrow> [(c, u)] | Sleep n \<Rightarrow> []) es)"
  by (simp add: requests_def)

text \<open>
  C9. For every site, when the root certificate file cannot be read \<open>VerifySite\<close>
  returns false and the error of the read, and leaves the world as it was: no request is
  issued. When the file can be read, so that a pool of root certificates is loaded from
  it, \<open>VerifySite\<close> issues at least one request, and every request it issues goes to the
  secure URL through a client that skips certificate verification and has no pool of root
  certificates attached.
\<close>

theorem VerifySite_unreadable_certificate:
  "(\<forall>err. files w (rootCert s) = Inl err \<longrightarrow>
      VerifySite s w = ((False, Some err), w) \<and> requests w (snd (VerifySite s w)) = [])
   \<and> (\<forall>caCert. files w (rootCert s) = Inr caCert \<longrightarrow>
        requests w (snd (VerifySite s w)) \<noteq> []
        \<and> list_all (\<lambda>request. InsecureSkipVerify (fst request) \<and> RootCAs (fst request) = None
                       \<and> snd request = secureURL s)
            (requests w (snd (VerifySite s w))))"
proof (intro conjI allI impI)
  fix err
  assume "files w (rootCert s) = Inl err"
  then show "VerifySite s w = ((False, Some err), w)"
    by (simp add: VerifySite_def)
  then show "requests w (snd (VerifySite s w)) = []"
    by (simp add: requests_def)
next
  fix caCert
  assume f: "files w (rootCert s) = Inr caCert"
  from VerifySite_requests [OF f] obtain es where
    es: "trace (snd (VerifySite s w)) = trace w @ HttpGet (VerifySite_client [caCert]) (secureURL s) # es"
      "set es \<subseteq> {HttpGet (VerifySite_client [caCert]) (secureURL s), Sleep 1}"
    by blast
  note r = requests_append [OF es(1)]
  show "requests w (snd (VerifySite s w)) \<noteq> []"
    unfolding r by simp
  show "list_all (\<lambda>request. InsecureSkipVerify (fst request) \<and> RootCAs (fst request) = None
                       \<and> snd request = secureURL s)
            (requests w (snd (VerifySite s w)))"
    unfolding r list_all_iff using es(2)
    by (auto simp: VerifySite_client_def split: event.splits)
qed

theorem VerifySite_unreadable_certificate_witness:
  "files quiet (rootCert demo) = Inl (OSError ''no such file or directory'')
   \<and> VerifySite demo quiet = ((False, Some (OSError ''no such file or directory'')), quiet)
   \<and> requests quiet (snd (VerifySite demo quiet)) = []
   \<and> files down (rootCert demo) = Inr ''-----BEGIN CERTIFICATE-----''
   \<and> requests down (snd (VerifySite demo down)) \<noteq> []
   \<and> list_all (\<lambda>request. InsecureSkipVerify (fst request) \<and> RootCAs (fst request) = None
                  \<and> snd request = ''https://demo.sites.kana.li/'')
        (requests down (snd (VerifySite demo down)))"
proof -
  have f: "files quiet (rootCert demo) = Inl (OSError ''no such file or directory'')"
    by (simp add: quiet_def)
  have g: "files down (rootCert demo) = Inr ''-----BEGIN CERTIFICATE-----''"
    by (simp add: down_def example_defs)
  have u: "secureURL demo = ''https://demo.sites.kana.li/''"
    by (simp add: example_defs)
  from f VerifySite_unreadable_certificate [of quiet demo]
  have a: "VerifySite demo quiet = ((False, Some (OSError ''no such file or directory'')), quiet)
           \<and> requests quiet (snd (VerifySite demo quiet)) = []"
    by blast
  from g VerifySite_unreadable_certificate [of down demo]
  have b: "requests down (snd (VerifySite demo down)) \<noteq> []
           \<and> list_all (\<lambda>request. InsecureSkipVerify (fst request) \<and> RootCAs (fst request) = None
                          \<and> snd request = ''https://demo.sites.kana.li/'')
                (requests down (snd (VerifySite demo down)))"
    unfolding u by blast
  from f g a b show ?thesis
    by blast
qed
subsection \<open>Xdebug\<close>

lemma healthy_at: "healthy w \<Longrightarrow> \<not> faults w (length (log w) + k)"
  by (simp add: healthy_def)

lemma find_last:
  "\<forall>x \<in> set xs. \<not> P x \<Longrightarrow> P y \<Longrightarrow> find P (xs @ [y]) = Some y"
  by (induction xs) auto

lemma ContainerExec_serving:
  assumes s: "serving w name cid" and r: "read_error (shell w cid (wrapped command)) = None"
  shows "fst (ContainerExec name [command] w) =
           (\<lparr>StdOut = said w cid command,
             StdErr = snd (StdCopy_frames (frames (shell w cid (wrapped command))) ([], [])),
             ExitCode = exit_code (shell w cid (wrapped command))\<rparr>, None)"
    and "containers (snd (ContainerExec name [command] w)) = containers w"
    and "execs (snd (ContainerExec name [command] w)) =
           execs w @ [\<lparr>ExecID = fresh w (created w), Container = cid,
                       Session = \<lparr>ExecConfig_AttachStdout = True, ExecConfig_AttachStderr = True,
                                  ExecConfig_Cmd = wrapped command\<rparr>\<rparr>]"
    and "created (snd (ContainerExec name [command] w)) = Suc (created w)"
    and "map fst (log (snd (ContainerExec name [command] w))) =
           map fst (log w) @ exec_calls cid (fresh w (created w)) command"
    and "faults (snd (ContainerExec name [command] w)) = faults w"
    and "fresh (snd (ContainerExec name [command] w)) = fresh w"
    and "shell (snd (ContainerExec name [command] w)) = shell w"
    and "stdout (snd (ContainerExec name [command] w)) = stdout w"
proof -
  from s have h: "healthy w" and f: "fresh_ids w"
    and l: "IsContainerRunning_loop name (filter Running (containers w)) = (cid, True)"
    by (simp_all add: serving_def)
  from s obtain c where c: "find_container w cid = Some c" "Running c"
    by (auto simp: serving_def split: option.splits)
  let ?list = "Call_ContainerList ContainerListOptions_zero"
  let ?cfg = "\<lparr>ExecConfig_AttachStdout = True, ExecConfig_AttachStderr = True,
               ExecConfig_Cmd = wrapped command\<rparr>"
  let ?eid = "fresh w (created w)"
  let ?e = "\<lparr>ExecID = ?eid, Container = cid, Session = ?cfg\<rparr>"
  let ?w1 = "logged ?list None w"
  let ?w2 = "logged (Call_ContainerExecCreate cid (wrapped command)) None
               (?w1\<lparr>execs := execs w @ [?e], created := Suc (created w)\<rparr>)"
  let ?w3 = "logged (Call_ContainerExecAttach ?eid) None ?w2"
  let ?w4 = "logged (Call_ContainerExecInspect ?eid) None ?w3"
  have i: "IsContainerRunning name w = ((cid, True), ?w1)"
    using healthy_at [OF h, of 0] l by (simp add: IsContainerRunning_eq)
  have cr: "client_ContainerExecCreate cid ?cfg ?w1 = (Inr ?eid, ?w2)"
    using healthy_at [OF h, of "Suc 0"] c
    by (simp add: client_ContainerExecCreate_def daemon_call_def find_container_def new_id_def)
  from f have "\<forall>x \<in> set (execs w). \<not> ExecID x = ?eid"
    by (auto simp: fresh_ids_def)
  then have fe: "find (\<lambda>e. ExecID e = ?eid) (execs w @ [?e]) = Some ?e"
    by (rule find_last) simp
  have at: "client_ContainerExecAttach ?eid ?w2 =
              (Inr (frames (shell w cid (wrapped command)), None), ?w3)"
    using healthy_at [OF h, of "Suc (Suc 0)"] fe r
    by (simp add: client_ContainerExecAttach_def daemon_call_def find_exec_def)
  have ins: "client_ContainerExecInspect ?eid ?w3 =
               (Inr (exit_code (shell w cid (wrapped command))), ?w4)"
    using healthy_at [OF h, of "Suc (Suc (Suc 0))"] fe
    by (simp add: client_ContainerExecInspect_def daemon_call_def find_exec_def)
  have "ContainerExec name [command] w =
          ((\<lparr>StdOut = said w cid command,
             StdErr = snd (StdCopy_frames (frames (shell w cid (wrapped command))) ([], [])),
             ExitCode = exit_code (shell w cid (wrapped command))\<rparr>, None), ?w4)"
    unfolding ContainerExec_def i
    using cr at ins by (simp add: wrapped_def StdCopy_def said_def)
  then show "fst (ContainerExec name [command] w) =
           (\<lparr>StdOut = said w cid command,
             StdErr = snd (StdCopy_frames (frames (shell w cid (wrapped command))) ([], [])),
             ExitCode = exit_code (shell w cid (wrapped command))\<rparr>, None)"
    and "containers (snd (ContainerExec name [command] w)) = containers w"
    and "execs (snd (ContainerExec name [command] w)) =
           execs w @ [\<lparr>ExecID = fresh w (created w), Container = cid,
                       Session = \<lparr>ExecConfig_AttachStdout = True, ExecConfig_AttachStderr = True,
                                  ExecConfig_Cmd = wrapped command\<rparr>\<rparr>]"
    and "created (snd (ContainerExec name [command] w)) = Suc (created w)"
    and "map fst (log (snd (ContainerExec name [command] w))) =
           map fst (log w) @ exec_calls cid (fresh w (created w)) command"
    and "faults (snd (ContainerExec name [command] w)) = faults w"
    and "fresh (snd (ContainerExec name [command] w)) = fresh w"
    and "shell (snd (ContainerExec name [command] w)) = shell w"
    and "stdout (snd (ContainerExec name [command] w)) = stdout w"
    by (simp_all add: exec_calls_def)
qed

lemma serving_after:
  assumes s: "serving w name cid" and r: "read_error (shell w cid (wrapped command)) = None"
  shows "serving (snd (ContainerExec name [command] w)) name cid"
proof -
  note e = ContainerExec_serving [OF s r]
  let ?w = "snd (ContainerExec name [command] w)"
  from s have h: "healthy w" and f: "fresh_ids w"
    by (simp_all add: serving_def)
  have "length (map fst (log w)) \<le> length (map fst (log ?w))"
    unfolding e(5) by simp
  then have "healthy ?w"
    using h e(6) by (auto intro: healthy_later)
  moreover have "fresh_ids ?w"
    using f unfolding fresh_ids_def e(3,4,7)
    by (auto simp: inj_eq)
  moreover have "find_container ?w cid = find_container w cid"
    by (simp add: find_container_def e(2))
  ultimately show ?thesis
    using s by (simp add: serving_def e(2))
qed

text \<open>
  With distinct identifiers, the running container the adapter finds under a name is the
  one the daemon finds under its identifier.
\<close>

lemma serving_found:
  assumes "healthy w" and "fresh_ids w" and "distinct (map ID (containers w))"
      and "IsContainerRunning_loop name (filter Running (containers w)) = (cid, True)"
  shows "serving w name cid"
proof -
  from loop_member [OF assms(4)] obtain c where
    c: "c \<in> set (containers w)" "Running c" "ID c = cid"
    by auto
  have "find (\<lambda>x. ID x = cid) cs = Some c" if "c \<in> set cs" "distinct (map ID cs)" for cs
    using that c(3) by (induction cs) (auto simp: image_iff)
  from this [OF c(1) assms(3)] c(2) assms(1,2,4) show ?thesis
    by (simp add: serving_def find_container_def)
qed

text \<open>
  A command whose stream ends in an error: \<open>ContainerExec\<close> returns that error and the
  empty result, after the session was created and attached to.
\<close>

lemma ContainerExec_broken:
  assumes s: "serving w name cid" and r: "read_error (shell w cid (wrapped command)) = Some err"
  shows "fst (ContainerExec name [command] w) = (ExecResult_zero, Some err)"
    and "containers (snd (ContainerExec name [command] w)) = containers w"
    and "execs (snd (ContainerExec name [command] w)) =
           execs w @ [\<lparr>ExecID = fresh w (created w), Container = cid,
                       Session = \<lparr>ExecConfig_AttachStdout = True, ExecConfig_AttachStderr = True,
                                  ExecConfig_Cmd = wrapped command\<rparr>\<rparr>]"
    and "map fst (log (snd (ContainerExec name [command] w))) =
           map fst (log w) @ broken_calls cid (fresh w (created w)) command"
    and "stdout (snd (ContainerExec name [command] w)) = stdout w"
proof -
  from s have h: "healthy w" and f: "fresh_ids w"
    and l: "IsContainerRunning_loop name (filter Running (containers w)) = (cid, True)"
    by (simp_all add: serving_def)
  from s obtain c where c: "find_container w cid = Some c" "Running c"
    by (auto simp: serving_def split: option.splits)
  let ?list = "Call_ContainerList ContainerListOptions_zero"
  let ?cfg = "\<lparr>ExecConfig_AttachStdout = True, ExecConfig_AttachStderr = True,
               ExecConfig_Cmd = wrapped command\<rparr>"
  let ?eid = "fresh w (created w)"
  let ?e = "\<lparr>ExecID = ?eid, Container = cid, Session = ?cfg\<rparr>"
  let ?w1 = "logged ?list None w"
  let ?w2 = "logged (Call_ContainerExecCreate cid (wrapped command)) None
               (?w1\<lparr>execs := execs w @ [?e], created := Suc (created w)\<rparr>)"
  let ?w3 = "logged (Call_ContainerExecAttach ?eid) None ?w2"
  have i: "IsContainerRunning name w = ((cid, True), ?w1)"
    using healthy_at [OF h, of 0] l by (simp add: IsContainerRunning_eq)
  have cr: "client_ContainerExecCreate cid ?cfg ?w1 = (Inr ?eid, ?w2)"
    using healthy_at [OF h, of "Suc 0"] c
    by (simp add: client_ContainerExecCreate_def daemon_call_def find_container_def new_id_def)
  from f have "\<forall>x \<in> set (execs w). \<not> ExecID x = ?eid"
    by (auto simp: fresh_ids_def)
  then have fe: "find (\<lambda>e. ExecID e = ?eid) (execs w @ [?e]) = Some ?e"
    by (rule find_last) simp
  have at: "client_ContainerExecAttach ?eid ?w2 =
              (Inr (frames (shell w cid (wrapped command)), Some err), ?w3)"
    using healthy_at [OF h, of "Suc (Suc 0)"] fe r
    by (simp add: client_ContainerExecAttach_def daemon_call_def find_exec_def)
  have "ContainerExec name [command] w = ((ExecResult_zero, Some err), ?w3)"
    unfolding ContainerExec_def i
    using cr at by (simp add: wrapped_def StdCopy_def)
  then show "fst (ContainerExec name [command] w) = (ExecResult_zero, Some err)"
    and "containers (snd (ContainerExec name [command] w)) = containers w"
    and "execs (snd (ContainerExec name [command] w)) =
           execs w @ [\<lparr>ExecID = fresh w (created w), Container = cid,
                       Session = \<lparr>ExecConfig_AttachStdout = True, ExecConfig_AttachStderr = True,
                                  ExecConfig_Cmd = wrapped command\<rparr>\<rparr>]"
    and "map fst (log (snd (ContainerExec name [command] w))) =
           map fst (log w) @ broken_calls cid (fresh w (created w)) command"
    and "stdout (snd (ContainerExec name [command] w)) = stdout w"
    by (simp_all add: broken_calls_def)
qed

lemma ContainerRestart_serving:
  assumes s: "serving w name cid"
  shows "fst (ContainerRestart name w) = (True, None)"
    and "map fst (log (snd (ContainerRestart name w))) = map fst (log w) @ restart_calls cid"
    and "execs (snd (ContainerRestart name w)) = execs w"
    and "stdout (snd (ContainerRestart name w)) = stdout w"
proof -
  from s have h: "healthy w"
    and l: "IsContainerRunning_loop name (filter Running (containers w)) = (cid, True)"
    by (simp_all add: serving_def)
  from s obtain c where c: "find_container w cid = Some c" "Running c"
    by (auto simp: serving_def split: option.splits)
  let ?list = "Call_ContainerList ContainerListOptions_zero"
  let ?w1 = "logged ?list None w"
  let ?w2 = "logged (Call_ContainerStop cid) None (set_running cid False ?w1)"
  let ?w3 = "logged (Call_ContainerStart cid) None (set_running cid True ?w2)"
  have i: "IsContainerRunning name w = ((cid, True), ?w1)"
    using healthy_at [OF h, of 0] l by (simp add: IsContainerRunning_eq)
  have st: "client_ContainerStop cid ?w1 = (Inr (), ?w2)"
    using healthy_at [OF h, of "Suc 0"] c
    by (simp add: client_ContainerStop_def daemon_call_def find_container_def)
  from c have "find (\<lambda>c. ID c = cid) (containers w) \<noteq> None"
    by (simp add: find_container_def)
  then have "find (\<lambda>c. ID c = cid)
               (map (\<lambda>c. if ID c = cid then c\<lparr>Running := False\<rparr> else c) (containers w)) \<noteq> None"
    by (induction "containers w" arbitrary: w) (auto simp: find_None_iff)
  then obtain c' where c': "find_container ?w2 cid = Some c'"
    by (auto simp: find_container_def)
  have sa: "client_ContainerStart cid ?w2 = (Inr (), ?w3)"
    using healthy_at [OF h, of "Suc (Suc 0)"] c'
    by (simp add: client_ContainerStart_def daemon_call_def)
  have "ContainerRestart name w = ((True, None), ?w3)"
    unfolding ContainerRestart_def i using st sa by simp
  then show "fst (ContainerRestart name w) = (True, None)"
    and "map fst (log (snd (ContainerRestart name w))) = map fst (log w) @ restart_calls cid"
    and "execs (snd (ContainerRestart name w)) = execs w"
    and "stdout (snd (ContainerRestart name w)) = stdout w"
    by (simp_all add: restart_calls_def)
qed

lemma InstallXdebug_loop_all:
  assumes "serving w (''kana_'' @ SiteName (StaticConfig s) @ ''_wordpress'') cid"
      and "readable w cid rest"
      and "i + length rest = n"
      and "i = 0 \<longrightarrow> \<not> Contains (said w cid (hd rest)) ''xdebug''"
  shows "fst (InstallXdebug_loop s n i rest w) = (True, None)
         \<and> map fst (log (snd (InstallXdebug_loop s n i rest w))) =
             map fst (log w) @ commands_calls (fresh w) cid (created w) rest
               @ (if rest = [] then [] else restart_calls cid)
         \<and> map (\<lambda>e. ExecConfig_Cmd (Session e)) (execs (snd (InstallXdebug_loop s n i rest w))) =
             map (\<lambda>e. ExecConfig_Cmd (Session e)) (execs w) @ map wrapped rest
         \<and> stdout (snd (InstallXdebug_loop s n i rest w)) = stdout w"
  using assms
proof (induction rest arbitrary: w i)
  case Nil
  then show ?case
    by simp
next
  case (Cons command rest)
  let ?name = "''kana_'' @ SiteName (StaticConfig s) @ ''_wordpress''"
  from Cons.prems(2) have r: "read_error (shell w cid (wrapped command)) = None"
    and rs: "readable w cid rest"
    by (simp_all add: readable_def)
  note s0 = Cons.prems(1)
  obtain out w1 where x: "ContainerExec ?name [command] w = ((out, None), w1)"
    and out: "StdOut out = said w cid command"
    using ContainerExec_serving(1) [OF s0 r]
    by (cases "ContainerExec ?name [command] w") auto
  then have w1: "snd (ContainerExec ?name [command] w) = w1"
    by simp
  note e = ContainerExec_serving(2-9) [OF s0 r, unfolded w1]
  have s1: "serving w1 ?name cid"
    using serving_after [OF s0 r] w1 by simp
  have installed: "\<not> (i = 0 \<and> Contains (StdOut out) ''xdebug'')"
    using Cons.prems(4) out by auto
  show ?case
  proof (cases "rest = []")
    case True
    with Cons.prems(3) have last: "i + 1 = n"
      by simp
    obtain b err w2 where y: "ContainerRestart ?name w1 = ((b, err), w2)"
      by (cases "ContainerRestart ?name w1") auto
    with ContainerRestart_serving [OF s1] have z: "err = None"
      "map fst (log w2) = map fst (log w1) @ restart_calls cid" "execs w2 = execs w1"
      "stdout w2 = stdout w1"
      by simp_all
    have "runCli s command True w = ((out, None), w2)"
      using x y z(1) by (simp add: runCli_def)
    with installed last True have "InstallXdebug_loop s n i (command # rest) w = ((True, None), w2)"
      by auto
    with z e True show ?thesis
      by (simp add: wrapped_def)
  next
    case False
    with Cons.prems(3) have more: "i + 1 \<noteq> n"
      by (cases rest) auto
    have run: "runCli s command False w = ((out, None), w1)"
      using x by (simp add: runCli_def)
    have step: "InstallXdebug_loop s n i (command # rest) w = InstallXdebug_loop s n (i + 1) rest w1"
      using run installed more by auto
    have "readable w1 cid rest"
      using rs e by (simp add: readable_def)
    moreover have "i + 1 + length rest = n"
      using Cons.prems(3) by simp
    ultimately have ih: "fst (InstallXdebug_loop s n (i + 1) rest w1) = (True, None)
         \<and> map fst (log (snd (InstallXdebug_loop s n (i + 1) rest w1))) =
             map fst (log w1) @ commands_calls (fresh w1) cid (created w1) rest
               @ (if rest = [] then [] else restart_calls cid)
         \<and> map (\<lambda>e. ExecConfig_Cmd (Session e)) (execs (snd (InstallXdebug_loop s n (i + 1) rest w1))) =
             map (\<lambda>e. ExecConfig_Cmd (Session e)) (execs w1) @ map wrapped rest
         \<and> stdout (snd (InstallXdebug_loop s n (i + 1) rest w1)) = stdout w1"
      by (intro Cons.IH [OF s1]) simp_all
    with ih e False show ?thesis
      unfolding step by simp
  qed
qed

lemma InstallXdebug_loop_broken:
  assumes "serving w (''kana_'' @ SiteName (StaticConfig s) @ ''_wordpress'') cid"
      and "readable w cid pre"
      and "read_error (shell w cid (wrapped command)) = Some err"
      and "i + length (pre @ command # post) = n"
      and "i = 0 \<and> pre \<noteq> [] \<longrightarrow> \<not> Contains (said w cid (hd pre)) ''xdebug''"
  shows "fst (InstallXdebug_loop s n i (pre @ command # post) w) = (False, Some err)
         \<and> map fst (log (snd (InstallXdebug_loop s n i (pre @ command # post) w))) =
             map fst (log w) @ commands_calls (fresh w) cid (created w) pre
               @ broken_calls cid (fresh w (created w + length pre)) command
         \<and> map (\<lambda>e. ExecConfig_Cmd (Session e))
              (execs (snd (InstallXdebug_loop s n i (pre @ command # post) w))) =
             map (\<lambda>e. ExecConfig_Cmd (Session e)) (execs w) @ map wrapped (pre @ [command])
         \<and> stdout (snd (InstallXdebug_loop s n i (pre @ command # post) w)) = stdout w"
  using assms
proof (induction pre arbitrary: w i)
  case Nil
  let ?name = "''kana_'' @ SiteName (StaticConfig s) @ ''_wordpress''"
  note b = ContainerExec_broken [OF Nil.prems(1) Nil.prems(3)]
  obtain out w1 where x: "ContainerExec ?name [command] w = ((out, Some err), w1)"
    using b(1) by (cases "ContainerExec ?name [command] w") auto
  then have w1: "snd (ContainerExec ?name [command] w) = w1"
    by simp
  have "runCli s command restart w = ((ExecResult_zero, Some err), w1)" for restart
    using x by (simp add: runCli_def)
  then have "InstallXdebug_loop s n i ([] @ command # post) w = ((False, Some err), w1)"
    by simp
  with b(2-5) [unfolded w1] show ?case
    by (simp add: wrapped_def)
next
  case (Cons p pre)
  let ?name = "''kana_'' @ SiteName (StaticConfig s) @ ''_wordpress''"
  from Cons.prems(2) have r: "read_error (shell w cid (wrapped p)) = None"
    and rs: "readable w cid pre"
    by (simp_all add: readable_def)
  note s0 = Cons.prems(1)
  obtain out w1 where x: "ContainerExec ?name [p] w = ((out, None), w1)"
    and out: "StdOut out = said w cid p"
    using ContainerExec_serving(1) [OF s0 r]
    by (cases "ContainerExec ?name [p] w") auto
  then have w1: "snd (ContainerExec ?name [p] w) = w1"
    by simp
  note e = ContainerExec_serving(2-9) [OF s0 r, unfolded w1]
  have s1: "serving w1 ?name cid"
    using serving_after [OF s0 r] w1 by simp
  have installed: "\<not> (i = 0 \<and> Contains (StdOut out) ''xdebug'')"
    using Cons.prems(5) out by auto
  have more: "i + 1 \<noteq> n"
    using Cons.prems(4) by auto
  have run: "runCli s p False w = ((out, None), w1)"
    using x by (simp add: runCli_def)
  have step: "InstallXdebug_loop s n i ((p # pre) @ command # post) w =
                InstallXdebug_loop s n (i + 1) (pre @ command # post) w1"
    using run installed more by auto
  have "readable w1 cid pre"
    using rs e by (simp add: readable_def)
  moreover have "read_error (shell w1 cid (wrapped command)) = Some err"
    using Cons.prems(3) e by simp
  moreover have "i + 1 + length (pre @ command # post) = n"
    using Cons.prems(4) by simp
  ultimately have ih: "fst (InstallXdebug_loop s n (i + 1) (pre @ command # post) w1) = (False, Some err)
         \<and> map fst (log (snd (InstallXdebug_loop s n (i + 1) (pre @ command # post) w1))) =
             map fst (log w1) @ commands_calls (fresh w1) cid (created w1) pre
               @ broken_calls cid (fresh w1 (created w1 + length pre)) command
         \<and> map (\<lambda>e. ExecConfig_Cmd (Session e))
              (execs (snd (InstallXdebug_loop s n (i + 1) (pre @ command # post) w1))) =
             map (\<lambda>e. ExecConfig_Cmd (Session e)) (execs w1) @ map wrapped (pre @ [command])
         \<and> stdout (snd (InstallXdebug_loop s n (i + 1) (pre @ command # post) w1)) = stdout w1"
    by (intro Cons.IH [OF s1]) simp_all
  with e show ?case
    unfolding step by (simp add: wrapped_def)
qed

lemma stdout_irrelevant [simp]:
  "serving (w\<lparr>stdout := out\<rparr>) name cid = serving w name cid"
  "readable (w\<lparr>stdout := out\<rparr>) cid commands = readable w cid commands"
  "said (w\<lparr>stdout := out\<rparr>) cid command = said w cid command"
  by (simp_all add: serving_def readable_def said_def healthy_def fresh_ids_def find_container_def)

lemma InstallXdebug_commands_eq:
  "InstallXdebug_commands =
     [''pecl list | grep xdebug'', ''pecl install xdebug'', ''docker-php-ext-enable xdebug'']
     @ map ini_append
         [''xdebug.start_with_request=yes'', ''xdebug.mode=debug'',
          ''xdebug.client_host=host.docker.internal'', ''xdebug.discover_client_host=on'',
          ''xdebug.start_with_request=trigger'']"
  by (simp add: InstallXdebug_commands_def ini_append_def)

lemma InstallXdebug_fresh:
  assumes "GetBool (SiteConfig s) ''xdebug''"
      and "serving w (''kana_'' @ SiteName (StaticConfig s) @ ''_wordpress'') cid"
      and "readable w cid InstallXdebug_commands"
      and "\<not> Contains (said w cid (hd InstallXdebug_commands)) ''xdebug''"
  shows "fst (InstallXdebug s w) = (True, None)
         \<and> map fst (log (snd (InstallXdebug s w))) =
             map fst (log w) @ commands_calls (fresh w) cid (created w) InstallXdebug_commands
               @ restart_calls cid
         \<and> commands_run (snd (InstallXdebug s w)) =
             commands_run w @ map wrapped InstallXdebug_commands"
proof -
  let ?w = "w\<lparr>stdout := stdout w @ [Println ''Installing Xdebug...'']\<rparr>"
  have n: "InstallXdebug_commands \<noteq> []"
    by (simp add: InstallXdebug_commands_def)
  have "fst (InstallXdebug_loop s (length InstallXdebug_commands) 0 InstallXdebug_commands ?w) = (True, None)
         \<and> map fst (log (snd (InstallXdebug_loop s (length InstallXdebug_commands) 0 InstallXdebug_commands ?w))) =
             map fst (log ?w) @ commands_calls (fresh ?w) cid (created ?w) InstallXdebug_commands
               @ (if InstallXdebug_commands = [] then [] else restart_calls cid)
         \<and> map (\<lambda>e. ExecConfig_Cmd (Session e))
              (execs (snd (InstallXdebug_loop s (length InstallXdebug_commands) 0 InstallXdebug_commands ?w))) =
             map (\<lambda>e. ExecConfig_Cmd (Session e)) (execs ?w) @ map wrapped InstallXdebug_commands
         \<and> stdout (snd (InstallXdebug_loop s (length InstallXdebug_commands) 0 InstallXdebug_commands ?w)) = stdout ?w"
    using assms(2-4) by (intro InstallXdebug_loop_all) simp_all
  with assms(1) n show ?thesis
    by (simp add: InstallXdebug_def commands_run_def)
qed

lemma InstallXdebug_present:
  assumes "GetBool (SiteConfig s) ''xdebug''"
      and "serving w (''kana_'' @ SiteName (StaticConfig s) @ ''_wordpress'') cid"
      and "read_error (shell w cid (wrapped (hd InstallXdebug_commands))) = None"
      and "Contains (said w cid (hd InstallXdebug_commands)) ''xdebug''"
  shows "fst (InstallXdebug s w) = (False, None)
         \<and> map fst (log (snd (InstallXdebug s w))) =
             map fst (log w) @ exec_calls cid (fresh w (created w)) (hd InstallXdebug_commands)
         \<and> commands_run (snd (InstallXdebug s w)) =
             commands_run w @ [wrapped (hd InstallXdebug_commands)]"
proof -
  let ?w = "w\<lparr>stdout := stdout w @ [Println ''Installing Xdebug...'']\<rparr>"
  let ?name = "''kana_'' @ SiteName (StaticConfig s) @ ''_wordpress''"
  let ?check = "''pecl list | grep xdebug''"
  have c: "InstallXdebug_commands = ?check # tl InstallXdebug_commands" "hd InstallXdebug_commands = ?check"
    by (simp_all add: InstallXdebug_commands_def)
  have s0: "serving ?w ?name cid"
    using assms(2) by simp
  from assms(3) have r: "read_error (shell ?w cid (wrapped ?check)) = None"
    by (simp add: c(2))
  obtain out w1 where x: "ContainerExec ?name [?check] ?w = ((out, None), w1)"
    and out: "StdOut out = said ?w cid ?check"
    using ContainerExec_serving(1) [OF s0 r]
    by (cases "ContainerExec ?name [?check] ?w") auto
  then have w1: "snd (ContainerExec ?name [?check] ?w) = w1"
    by simp
  note e = ContainerExec_serving(2-9) [OF s0 r, unfolded w1]
  have run: "runCli s ?check False ?w = ((out, None), w1)"
    using x by (simp add: runCli_def)
  have "InstallXdebug_loop s (length InstallXdebug_commands) 0 (?check # tl InstallXdebug_commands) ?w
          = ((False, None), w1)"
    using run out assms(4) c(2) by (simp add: InstallXdebug_commands_def)
  then have "InstallXdebug s w = ((False, None), w1)"
    using assms(1) c(1) by (simp add: InstallXdebug_def)
  with e c(2) show ?thesis
    by (simp add: commands_run_def)
qed

lemma InstallXdebug_broken:
  assumes "GetBool (SiteConfig s) ''xdebug''"
      and "serving w (''kana_'' @ SiteName (StaticConfig s) @ ''_wordpress'') cid"
      and "InstallXdebug_commands = pre @ command # post"
      and "readable w cid pre"
      and "read_error (shell w cid (wrapped command)) = Some err"
      and "pre \<noteq> [] \<longrightarrow> \<not> Contains (said w cid ''pecl list | grep xdebug'') ''xdebug''"
  shows "fst (InstallXdebug s w) = (False, Some err)
         \<and> map fst (log (snd (InstallXdebug s w))) =
             map fst (log w) @ commands_calls (fresh w) cid (created w) pre
               @ broken_calls cid (fresh w (created w + length pre)) command
         \<and> commands_run (snd (InstallXdebug s w)) =
             commands_run w @ map wrapped (pre @ [command])"
proof -
  let ?w = "w\<lparr>stdout := stdout w @ [Println ''Installing Xdebug...'']\<rparr>"
  let ?n = "length (pre @ command # post)"
  have "hd (pre @ command # post) = ''pecl list | grep xdebug''"
    unfolding assms(3) [symmetric] by (simp add: InstallXdebug_commands_def)
  then have h: "pre \<noteq> [] \<longrightarrow> hd pre = ''pecl list | grep xdebug''"
    by (cases pre) simp_all
  have "fst (InstallXdebug_loop s ?n 0 (pre @ command # post) ?w) = (False, Some err)
         \<and> map fst (log (snd (InstallXdebug_loop s ?n 0 (pre @ command # post) ?w))) =
             map fst (log ?w) @ commands_calls (fresh ?w) cid (created ?w) pre
               @ broken_calls cid (fresh ?w (created ?w + length pre)) command
         \<and> map (\<lambda>e. ExecConfig_Cmd (Session e))
              (execs (snd (InstallXdebug_loop s ?n 0 (pre @ command # post) ?w))) =
             map (\<lambda>e. ExecConfig_Cmd (Session e)) (execs ?w) @ map wrapped (pre @ [command])
         \<and> stdout (snd (InstallXdebug_loop s ?n 0 (pre @ command # post) ?w)) = stdout ?w"
    using assms(2,4,5,6) h by (intro InstallXdebug_loop_broken) simp_all
  moreover have "InstallXdebug s w = InstallXdebug_loop s ?n 0 (pre @ command # post) ?w"
    using assms(1) unfolding InstallXdebug_def assms(3) by simp
  ultimately show ?thesis
    by (simp add: commands_run_def)
qed

text \<open>
  C6, as amended. For every site, \<open>InstallXdebug\<close> returns false and no error, and
  leaves the world as it was, when the xdebug flag of the site's configuration is unset.
  Otherwise its commands are, in this order, the check \<open>pecl list | grep xdebug\<close>, the
  install, the enable, and five lines appended to \<open>php.ini\<close>. With the flag set, on a
  daemon that answers every call, hands out a fresh identifier to every exec session and
  has given no two containers the same identifier, and with \<open>cid\<close> the running container
  the adapter finds under the name of the app container:
  \<^item> when the stream of the check ends without an error and its output contains
    \<open>xdebug\<close>, the check is the only command run, in one exec session, and the result is
    false and no error;
  \<^item> when the streams of all eight commands end without an error and the output of the
    check does not contain \<open>xdebug\<close>, the eight commands are run in order, each in an exec
    session of its own, the container is restarted (stopped, then started) after the last
    one and not before, and the result is true and no error;
  \<^item> when the stream of a command ends in an error, the streams of the commands before it
    do not, and the output of the check (if the check is one of those) does not contain
    \<open>xdebug\<close>, the commands up to that one are run in order, no later one is, the
    container is not restarted, and the result is false and that error.
\<close>

theorem InstallXdebug_sequence:
  "(\<not> GetBool (SiteConfig s) ''xdebug'' \<longrightarrow> InstallXdebug s w = ((False, None), w))
   \<and> (GetBool (SiteConfig s) ''xdebug''
        \<and> healthy w \<and> fresh_ids w \<and> distinct (map ID (containers w))
        \<and> IsContainerRunning_loop (''kana_'' @ SiteName (StaticConfig s) @ ''_wordpress'')
             (filter Running (containers w)) = (cid, True) \<longrightarrow>
        (read_error (shell w cid (wrapped ''pecl list | grep xdebug'')) = None
           \<and> Contains (said w cid ''pecl list | grep xdebug'') ''xdebug'' \<longrightarrow>
           fst (InstallXdebug s w) = (False, None)
           \<and> map fst (log (snd (InstallXdebug s w))) =
               map fst (log w) @ exec_calls cid (fresh w (created w)) ''pecl list | grep xdebug''
           \<and> commands_run (snd (InstallXdebug s w)) =
               commands_run w @ [wrapped ''pecl list | grep xdebug''])
        \<and> (readable w cid InstallXdebug_commands
           \<and> \<not> Contains (said w cid ''pecl list | grep xdebug'') ''xdebug'' \<longrightarrow>
           fst (InstallXdebug s w) = (True, None)
           \<and> map fst (log (snd (InstallXdebug s w))) =
               map fst (log w) @ commands_calls (fresh w) cid (created w) InstallXdebug_commands
                 @ restart_calls cid
           \<and> commands_run (snd (InstallXdebug s w)) =
               commands_run w @ map wrapped InstallXdebug_commands)
        \<and> (\<forall>pre command post err.
             InstallXdebug_commands = pre @ command # post
             \<and> readable w cid pre
             \<and> read_error (shell w cid (wrapped command)) = Some err
             \<and> (pre \<noteq> [] \<longrightarrow> \<not> Contains (said w cid ''pecl list | grep xdebug'') ''xdebug'') \<longrightarrow>
             fst (InstallXdebug s w) = (False, Some err)
             \<and> map fst (log (snd (InstallXdebug s w))) =
                 map fst (log w) @ commands_calls (fresh w) cid (created w) pre
                   @ broken_calls cid (fresh w (created w + length pre)) command
             \<and> commands_run (snd (InstallXdebug s w)) =
                 commands_run w @ map wrapped (pre @ [command])))
   \<and> InstallXdebug_commands =
       [''pecl list | grep xdebug'', ''pecl install xdebug'', ''docker-php-ext-enable xdebug'']
       @ map ini_append
           [''xdebug.start_with_request=yes'', ''xdebug.mode=debug'',
            ''xdebug.client_host=host.docker.internal'', ''xdebug.discover_client_host=on'',
            ''xdebug.start_with_request=trigger'']"
proof -
  let ?name = "''kana_'' @ SiteName (StaticConfig s) @ ''_wordpress''"
  have h: "hd InstallXdebug_commands = ''pecl list | grep xdebug''"
    by (simp add: InstallXdebug_commands_def)
  have off: "\<not> GetBool (SiteConfig s) ''xdebug'' \<longrightarrow> InstallXdebug s w = ((False, None), w)"
    by (simp add: InstallXdebug_def)
  have on: "(read_error (shell w cid (wrapped ''pecl list | grep xdebug'')) = None
           \<and> Contains (said w cid ''pecl list | grep xdebug'') ''xdebug'' \<longrightarrow>
           fst (InstallXdebug s w) = (False, None)
           \<and> map fst (log (snd (InstallXdebug s w))) =
               map fst (log w) @ exec_calls cid (fresh w (created w)) ''pecl list | grep xdebug''
           \<and> commands_run (snd (InstallXdebug s w)) =
               commands_run w @ [wrapped ''pecl list | grep xdebug''])
        \<and> (readable w cid InstallXdebug_commands
           \<and> \<not> Contains (said w cid ''pecl list | grep xdebug'') ''xdebug'' \<longrightarrow>
           fst (InstallXdebug s w) = (True, None)
           \<and> map fst (log (snd (InstallXdebug s w))) =
               map fst (log w) @ commands_calls (fresh w) cid (created w) InstallXdebug_commands
                 @ restart_calls cid
           \<and> commands_run (snd (InstallXdebug s w)) =
               commands_run w @ map wrapped InstallXdebug_commands)
        \<and> (\<forall>pre command post err.
             InstallXdebug_commands = pre @ command # post
             \<and> readable w cid pre
             \<and> read_error (shell w cid (wrapped command)) = Some err
             \<and> (pre \<noteq> [] \<longrightarrow> \<not> Contains (said w cid ''pecl list | grep xdebug'') ''xdebug'') \<longrightarrow>
             fst (InstallXdebug s w) = (False, Some err)
             \<and> map fst (log (snd (InstallXdebug s w))) =
                 map fst (log w) @ commands_calls (fresh w) cid (created w) pre
                   @ broken_calls cid (fresh w (created w + length pre)) command
             \<and> commands_run (snd (InstallXdebug s w)) =
                 commands_run w @ map wrapped (pre @ [command]))"
    if g: "GetBool (SiteConfig s) ''xdebug''" and sv: "serving w ?name cid"
  proof (intro conjI allI impI)
    assume a: "read_error (shell w cid (wrapped ''pecl list | grep xdebug'')) = None
               \<and> Contains (said w cid ''pecl list | grep xdebug'') ''xdebug''"
    from a
    have "fst (InstallXdebug s w) = (False, None)
           \<and> map fst (log (snd (InstallXdebug s w))) =
               map fst (log w) @ exec_calls cid (fresh w (created w)) ''pecl list | grep xdebug''
           \<and> commands_run (snd (InstallXdebug s w)) =
               commands_run w @ [wrapped ''pecl list | grep xdebug'']"
      by (intro InstallXdebug_present [OF g sv, unfolded h]) simp_all
    then show "fst (InstallXdebug s w) = (False, None)"
      and "map fst (log (snd (InstallXdebug s w))) =
             map fst (log w) @ exec_calls cid (fresh w (created w)) ''pecl list | grep xdebug''"
      and "commands_run (snd (InstallXdebug s w)) =
             commands_run w @ [wrapped ''pecl list | grep xdebug'']"
      by simp_all
  next
    assume a: "readable w cid InstallXdebug_commands
               \<and> \<not> Contains (said w cid ''pecl list | grep xdebug'') ''xdebug''"
    from a
    have "fst (InstallXdebug s w) = (True, None)
           \<and> map fst (log (snd (InstallXdebug s w))) =
               map fst (log w) @ commands_calls (fresh w) cid (created w) InstallXdebug_commands
                 @ restart_calls cid
           \<and> commands_run (snd (InstallXdebug s w)) =
               commands_run w @ map wrapped InstallXdebug_commands"
      by (intro InstallXdebug_fresh [OF g sv, unfolded h]) simp_all
    then show "fst (InstallXdebug s w) = (True, None)"
      and "map fst (log (snd (InstallXdebug s w))) =
             map fst (log w) @ commands_calls (fresh w) cid (created w) InstallXdebug_commands
               @ restart_calls cid"
      and "commands_run (snd (InstallXdebug s w)) =
             commands_run w @ map wrapped InstallXdebug_commands"
      by simp_all
  next
    fix pre command post err
    assume a: "InstallXdebug_commands = pre @ command # post
             \<and> readable w cid pre
             \<and> read_error (shell w cid (wrapped command)) = Some err
             \<and> (pre \<noteq> [] \<longrightarrow> \<not> Contains (said w cid ''pecl list | grep xdebug'') ''xdebug'')"
    note a1 = a [THEN conjunct1] and a2 = a [THEN conjunct2, THEN conjunct1]
      and a3 = a [THEN conjunct2, THEN conjunct2, THEN conjunct1]
      and a4 = a [THEN conjunct2, THEN conjunct2, THEN conjunct2]
    from InstallXdebug_broken [OF g sv a1 a2 a3 a4] show "fst (InstallXdebug s w) = (False, Some err)"
      and "map fst (log (snd (InstallXdebug s w))) =
             map fst (log w) @ commands_calls (fresh w) cid (created w) pre
               @ broken_calls cid (fresh w (created w + length pre)) command"
      and "commands_run (snd (InstallXdebug s w)) =
             commands_run w @ map wrapped (pre @ [command])"
      by simp_all
  qed
  from off on serving_found [of w ?name cid] InstallXdebug_commands_eq show ?thesis
    by blast
qed

lemma inj_numbered: "inj numbered"
  by (simp add: inj_def numbered_def)

lemma serving_up:
  "serving up ''kana_demo_wordpress'' ''wp1''" "serving installed ''kana_demo_wordpress'' ''wp1''"
  by (simp_all add: serving_def healthy_def fresh_ids_def inj_numbered find_container_def
      installed_def up_def quiet_def a_container_def Trim_def)

lemma readable_up:
  "readable up ''wp1'' InstallXdebug_commands" "readable installed ''wp1'' InstallXdebug_commands"
  by (simp_all add: readable_def installed_def up_def quiet_def list_all_iff)

lemma said_up:
  "\<not> Contains (said up ''wp1'' ''pecl list | grep xdebug'') ''xdebug''"
  "Contains (said installed ''wp1'' ''pecl list | grep xdebug'') ''xdebug''"
  by (simp_all add: said_def installed_def up_def quiet_def)

lemma demo_simps:
  "GetBool (SiteConfig demo) ''xdebug''" "SiteName (StaticConfig demo) = ''demo''"
  "\<not> GetBool (SiteConfig nameless) ''xdebug''"
  by (simp_all add: demo_def nameless_def site_named_def settings_def)

lemma app_up:
  "healthy up" "fresh_ids up" "distinct (map ID (containers up))"
  "IsContainerRunning_loop ''kana_demo_wordpress'' (filter Running (containers up)) = (''wp1'', True)"
  "healthy installed" "fresh_ids installed" "distinct (map ID (containers installed))"
  "IsContainerRunning_loop ''kana_demo_wordpress'' (filter Running (containers installed)) = (''wp1'', True)"
  "healthy broken" "fresh_ids broken" "distinct (map ID (containers broken))"
  "IsContainerRunning_loop ''kana_demo_wordpress'' (filter Running (containers broken)) = (''wp1'', True)"
  by (simp_all add: healthy_def fresh_ids_def inj_numbered installed_def broken_def up_def quiet_def
      a_container_def Trim_def)

lemma readable_broken:
  "readable broken ''wp1'' [''pecl list | grep xdebug'']"
  "read_error (shell broken ''wp1'' (wrapped ''pecl install xdebug'')) = Some (StreamError ''unexpected EOF'')"
  "\<not> Contains (said broken ''wp1'' ''pecl list | grep xdebug'') ''xdebug''"
  "read_error (shell installed ''wp1'' (wrapped ''pecl list | grep xdebug'')) = None"
  by (simp_all add: readable_def said_def wrapped_def broken_def installed_def up_def quiet_def)

theorem InstallXdebug_sequence_witness:
  "GetBool (SiteConfig demo) ''xdebug''
   \<and> healthy up \<and> fresh_ids up \<and> distinct (map ID (containers up))
   \<and> IsContainerRunning_loop ''kana_demo_wordpress'' (filter Running (containers up)) = (''wp1'', True)
   \<and> readable up ''wp1'' InstallXdebug_commands
   \<and> \<not> Contains (said up ''wp1'' ''pecl list | grep xdebug'') ''xdebug''
   \<and> fst (InstallXdebug demo up) = (True, None)
   \<and> commands_run (snd (InstallXdebug demo up)) = map wrapped InstallXdebug_commands
   \<and> read_error (shell installed ''wp1'' (wrapped ''pecl list | grep xdebug'')) = None
   \<and> Contains (said installed ''wp1'' ''pecl list | grep xdebug'') ''xdebug''
   \<and> fst (InstallXdebug demo installed) = (False, None)
   \<and> commands_run (snd (InstallXdebug demo installed)) = [wrapped ''pecl list | grep xdebug'']
   \<and> read_error (shell broken ''wp1'' (wrapped ''pecl install xdebug'')) =
       Some (StreamError ''unexpected EOF'')
   \<and> fst (InstallXdebug demo broken) = (False, Some (StreamError ''unexpected EOF''))
   \<and> commands_run (snd (InstallXdebug demo broken)) =
       [wrapped ''pecl list | grep xdebug'', wrapped ''pecl install xdebug'']
   \<and> \<not> GetBool (SiteConfig nameless) ''xdebug''
   \<and> InstallXdebug nameless up = ((False, None), up)"
proof -
  have e: "commands_run up = []" "commands_run installed = []" "commands_run broken = []"
    by (simp_all add: commands_run_def installed_def broken_def up_def quiet_def)
  have c: "InstallXdebug_commands =
             [''pecl list | grep xdebug''] @ ''pecl install xdebug'' # drop 2 InstallXdebug_commands"
    by (simp add: InstallXdebug_commands_def)
  note n = demo_simps(2)
  from InstallXdebug_sequence [of demo up "''wp1''"] demo_simps(1) app_up(1-4) readable_up(1) said_up(1)
  have a: "fst (InstallXdebug demo up) = (True, None)
           \<and> commands_run (snd (InstallXdebug demo up)) = map wrapped InstallXdebug_commands"
    unfolding n e by simp
  from InstallXdebug_sequence [of demo installed "''wp1''"] demo_simps(1) app_up(5-8)
    readable_broken(4) said_up(2)
  have b: "fst (InstallXdebug demo installed) = (False, None)
           \<and> commands_run (snd (InstallXdebug demo installed)) = [wrapped ''pecl list | grep xdebug'']"
    unfolding n e by simp
  have h: "GetBool (SiteConfig demo) ''xdebug''
        \<and> healthy broken \<and> fresh_ids broken \<and> distinct (map ID (containers broken))
        \<and> IsContainerRunning_loop (''kana_'' @ SiteName (StaticConfig demo) @ ''_wordpress'')
             (filter Running (containers broken)) = (''wp1'', True)"
    using demo_simps(1) app_up(9-12) unfolding n by simp
  have k: "InstallXdebug_commands =
             [''pecl list | grep xdebug''] @ ''pecl install xdebug'' # drop 2 InstallXdebug_commands
           \<and> readable broken ''wp1'' [''pecl list | grep xdebug'']
           \<and> read_error (shell broken ''wp1'' (wrapped ''pecl install xdebug'')) =
               Some (StreamError ''unexpected EOF'')
           \<and> ([''pecl list | grep xdebug''] \<noteq> [] \<longrightarrow>
                \<not> Contains (said broken ''wp1'' ''pecl list | grep xdebug'') ''xdebug'')"
    using c readable_broken(1-3) by (intro conjI impI)
  note t = InstallXdebug_sequence [of demo broken "''wp1''", THEN conjunct2, THEN conjunct1,
      THEN mp, OF h, THEN conjunct2, THEN conjunct2, THEN spec, THEN spec, THEN spec, THEN spec,
      THEN mp, OF k]
  then have d: "fst (InstallXdebug demo broken) = (False, Some (StreamError ''unexpected EOF''))
           \<and> commands_run (snd (InstallXdebug demo broken)) =
               [wrapped ''pecl list | grep xdebug'', wrapped ''pecl install xdebug'']"
    unfolding e by simp
  from InstallXdebug_sequence [of nameless up] demo_simps(3)
  have f: "InstallXdebug nameless up = ((False, None), up)"
    by simp
  show ?thesis
    using demo_simps(1,3) app_up(1-4) readable_up(1) said_up readable_broken(2,4) a b d f
    by simp
qed

text \<open>
  The claim as it stands counts four lines appended to \<open>php.ini\<close>; five are run, eight
  commands in all.
\<close>

theorem InstallXdebug_five_ini_lines_counterexample:
  "fst (InstallXdebug demo up) = (True, None)
   \<and> length (commands_run (snd (InstallXdebug demo up))) = 8
   \<and> length (filter (\<lambda>command. take 5 (last command) = ''echo '')
        (commands_run (snd (InstallXdebug demo up)))) = 5"
proof -
  have e: "commands_run up = []"
    by (simp add: commands_run_def up_def quiet_def)
  have h: "hd InstallXdebug_commands = ''pecl list | grep xdebug''"
    by (simp add: InstallXdebug_commands_def)
  have s: "serving up (''kana_'' @ SiteName (StaticConfig demo) @ ''_wordpress'') ''wp1''"
    using serving_up(1) by (simp add: demo_simps)
  have "fst (InstallXdebug demo up) = (True, None)
        \<and> commands_run (snd (InstallXdebug demo up)) = map wrapped InstallXdebug_commands"
    using InstallXdebug_fresh [OF demo_simps(1) s readable_up(1)] said_up(1) e
    unfolding h by simp
  then show ?thesis
    by (simp add: InstallXdebug_commands_def wrapped_def)
qed

end
